theory Spec2Isabelle
  imports Main "HOL-Library.Word" "HOL-Library.Product_Lexorder"
begin

section \<open>The reminder bot: two variants of one server\<close>

text \<open>
  The repository holds two variants of the same Slack Bolt server: \<^verbatim>\<open>src/server.js\<close> and
  \<^verbatim>\<open>src/unnamed/part_000\<close>, whose header calls it the corrected and simplified one.
  Definitions ending in \<open>_srv\<close> embed \<^verbatim>\<open>server.js\<close>, definitions ending in \<open>_p0\<close>
  embed \<^verbatim>\<open>part_000\<close>; a definition without suffix is shared by both.
\<close>

subsection \<open>JavaScript strings\<close>

text \<open>
  A JavaScript string is a sequence of UTF-16 code units: \<^verbatim>\<open>length\<close> and \<^verbatim>\<open>slice\<close>
  count code units. The em dash of the option labels is the single unit 0x2014, the bell
  of the reminder text is the surrogate pair 0xD83D 0xDD14.
\<close>

type_synonym ustring = "16 word list"

definition lit :: "string \<Rightarrow> ustring" where
  "lit s = map (\<lambda>c. word_of_nat (of_char c)) s"

definition em_dash :: ustring where
  "em_dash = [0x2014]"

definition bell :: ustring where
  "bell = [0xD83D, 0xDD14]"

definition check_mark :: ustring where
  "check_mark = [0x2705]"

definition newline :: ustring where
  "newline = [0x0A]"

text \<open>\<^verbatim>\<open>s.slice(0, n)\<close> for \<open>0 \<le> n\<close>.\<close>

definition slice0 :: "nat \<Rightarrow> ustring \<Rightarrow> ustring" where
  "slice0 n s = take n s"

text \<open>\<^verbatim>\<open>String(n)\<close> for an integer \<open>n\<close> (task ids are 32-bit SERIAL values).\<close>

definition digit :: "nat \<Rightarrow> 16 word" where
  "digit d = word_of_nat (48 + d)"

fun digits :: "nat \<Rightarrow> ustring" where
  "digits n = (if n < 10 then [digit n] else digits (n div 10) @ [digit (n mod 10)])"

declare digits.simps [simp del]

definition String_int :: "int \<Rightarrow> ustring" where
  "String_int i = (if i < 0 then lit ''-'' @ digits (nat (- i)) else digits (nat i))"

text \<open>A value interpolated into a template literal: \<^verbatim>\<open>null\<close> prints as \<open>null\<close>.\<close>

definition interpolate :: "ustring option \<Rightarrow> ustring" where
  "interpolate v = (case v of None \<Rightarrow> lit ''null'' | Some s \<Rightarrow> s)"

text \<open>\<^verbatim>\<open>v || ''\<close> for a string or \<^verbatim>\<open>null\<close>.\<close>

definition or_empty :: "ustring option \<Rightarrow> ustring" where
  "or_empty v = (case v of None \<Rightarrow> [] | Some s \<Rightarrow> s)"

text \<open>Truthiness of a string or \<^verbatim>\<open>null\<close>: \<^verbatim>\<open>null\<close> and \<^verbatim>\<open>''\<close> are falsy.\<close>

definition truthy_str :: "ustring option \<Rightarrow> bool" where
  "truthy_str v = (case v of None \<Rightarrow> False | Some s \<Rightarrow> s \<noteq> [])"

subsection \<open>Dates\<close>

text \<open>
  node-postgres hands a DATE column to the handler as a \<^verbatim>\<open>Date\<close> object. The model keeps
  the calendar date that \<^verbatim>\<open>toISOString()\<close> prints (years from 0 on) and fixes the time
  of day at midnight UTC: the handlers only read \<^verbatim>\<open>toISOString().slice(0, 10)\<close>. Since
  the value is always a \<^verbatim>\<open>Date\<close>, the test \<^verbatim>\<open>r.due_date instanceof Date\<close> of
  \<^verbatim>\<open>part_000\<close> is true and its \<^verbatim>\<open>String(r.due_date)\<close> branch is not reached.
\<close>

record js_date =
  year :: nat
  month :: nat
  day :: nat

definition pad :: "nat \<Rightarrow> nat \<Rightarrow> ustring" where
  "pad w n = replicate (w - length (digits n)) (digit 0) @ digits n"

definition toISOString :: "js_date \<Rightarrow> ustring" where
  "toISOString d =
     (if year d \<le> 9999 then pad 4 (year d) else lit ''+'' @ pad 6 (year d))
     @ lit ''-'' @ pad 2 (month d) @ lit ''-'' @ pad 2 (day d) @ lit ''T00:00:00.000Z''"

definition iso10 :: "js_date \<Rightarrow> ustring" where
  "iso10 d = slice0 10 (toISOString d)"

definition date_key :: "js_date \<Rightarrow> nat \<times> nat \<times> nat" where
  "date_key d = (year d, month d, day d)"

subsection \<open>The task table and its queries\<close>

text \<open>
  The columns of \<^verbatim>\<open>tasks\<close> that the handlers read or write (\<^verbatim>\<open>created_at\<close> is
  assigned by the store and never read). The field \<open>id_col\<close> is the column \<^verbatim>\<open>id\<close>.
\<close>

record task =
  id_col :: int
  user_id :: ustring
  task_text :: ustring
  due_date :: js_date
  created_by :: "ustring option"
  channel_id :: "ustring option"
  completed :: bool

text \<open>
  \<^verbatim>\<open>SELECT id, task_text, due_date FROM tasks WHERE user_id=$1 AND completed = false
  ORDER BY due_date ASC LIMIT 50\<close> over a table given in its row order. SQL leaves the
  order of rows with equal due dates to the store; the model keeps the table's row order
  for them (a stable sort).
\<close>

definition select_open_tasks :: "task list \<Rightarrow> ustring \<Rightarrow> task list" where
  "select_open_tasks tbl u =
     take 50 (sort_key (\<lambda>t. date_key (due_date t))
       (filter (\<lambda>t. user_id t = u \<and> \<not> completed t) tbl))"

subsection \<open>JSON payloads and JavaScript values\<close>

text \<open>
  The body of an interaction is parsed JSON. An object is the list of its own properties
  in enumeration order, each key once. Numbers are kept as integers: the handlers only
  test a number for being zero. A JavaScript value is a JSON value, \<^verbatim>\<open>undefined\<close>, or a built-in
  function (what \<^verbatim>\<open>.values\<close> reads from an array: \<^verbatim>\<open>Array.prototype.values\<close>).
\<close>

datatype json =
    JNull
  | JBool bool
  | JNum int
  | JStr ustring
  | JArr "json list"
  | JObj "(ustring \<times> json) list"

datatype jsval = Undefined | Builtin_function | J json

datatype js_error = TypeError ustring | StoreError ustring | PlatformError ustring

definition message :: "js_error \<Rightarrow> ustring" where
  "message e = (case e of TypeError m \<Rightarrow> m | StoreError m \<Rightarrow> m | PlatformError m \<Rightarrow> m)"

fun truthy :: "jsval \<Rightarrow> bool" where
  "truthy Undefined = False"
| "truthy Builtin_function = True"
| "truthy (J JNull) = False"
| "truthy (J (JBool b)) = b"
| "truthy (J (JNum n)) = (n \<noteq> 0)"
| "truthy (J (JStr s)) = (s \<noteq> [])"
| "truthy (J (JArr xs)) = True"
| "truthy (J (JObj kvs)) = True"

text \<open>
  Reading a property by one of the fixed names the option handlers use (\<^verbatim>\<open>view\<close>,
  \<^verbatim>\<open>state\<close>, \<^verbatim>\<open>values\<close>, \<^verbatim>\<open>type\<close>, \<^verbatim>\<open>selected_user\<close>): a \<^verbatim>\<open>TypeError\<close> on
  \<^verbatim>\<open>null\<close> and \<^verbatim>\<open>undefined\<close>, the own property of an object, \<^verbatim>\<open>undefined\<close> where
  there is none. Of these names only \<^verbatim>\<open>values\<close> is inherited, by arrays.
\<close>

definition cannot_read :: js_error where
  "cannot_read = TypeError (lit ''Cannot read properties of undefined or null'')"

fun get_prop :: "jsval \<Rightarrow> ustring \<Rightarrow> js_error + jsval" where
  "get_prop Undefined k = Inl cannot_read"
| "get_prop (J JNull) k = Inl cannot_read"
| "get_prop (J (JObj kvs)) k = Inr (case map_of kvs k of None \<Rightarrow> Undefined | Some v \<Rightarrow> J v)"
| "get_prop (J (JArr xs)) k = Inr (if k = lit ''values'' then Builtin_function else Undefined)"
| "get_prop v k = Inr Undefined"

text \<open>
  The values of the own enumerable properties, in enumeration order: what a loop over
  the keys of \<open>o\<close> reads back as \<^verbatim>\<open>o[key]\<close>. A string enumerates its code units, an
  array its elements, a number, a boolean or a built-in function nothing.
\<close>

fun own_values :: "jsval \<Rightarrow> jsval list" where
  "own_values (J (JObj kvs)) = map (\<lambda>kv. J (snd kv)) kvs"
| "own_values (J (JArr xs)) = map J xs"
| "own_values (J (JStr s)) = map (\<lambda>c. J (JStr [c])) s"
| "own_values v = []"

text \<open>\<^verbatim>\<open>for (const k in o)\<close> runs no iteration on \<^verbatim>\<open>null\<close> and \<^verbatim>\<open>undefined\<close>.\<close>

definition for_in :: "jsval \<Rightarrow> jsval list" where
  "for_in v = own_values v"

text \<open>\<^verbatim>\<open>Object.keys(o)\<close> throws a \<^verbatim>\<open>TypeError\<close> on \<^verbatim>\<open>null\<close> and \<^verbatim>\<open>undefined\<close>.\<close>

definition cannot_convert :: js_error where
  "cannot_convert = TypeError (lit ''Cannot convert undefined or null to object'')"

fun Object_keys :: "jsval \<Rightarrow> js_error + jsval list" where
  "Object_keys Undefined = Inl cannot_convert"
| "Object_keys (J JNull) = Inl cannot_convert"
| "Object_keys v = Inr (own_values v)"

subsection \<open>Actions of a handler\<close>

text \<open>
  An option of a select menu: \<^verbatim>\<open>{ text: { type: 'plain_text', text: label }, value }\<close>.
\<close>

record option_item =
  opt_text :: ustring
  opt_value :: ustring

text \<open>
  What a handler does, in the order it does it. \<open>Ack_empty\<close> is \<^verbatim>\<open>ack()\<close>,
  \<open>Ack_options\<close> is \<^verbatim>\<open>ack({ options })\<close>; \<open>ConsoleError\<close> is \<^verbatim>\<open>console.error\<close>
  with its label and the error. The acknowledgment and \<^verbatim>\<open>console.error\<close> themselves are
  taken not to throw; every call of the store and of the platform client may.
\<close>

datatype action =
    Ack_empty
  | Ack_options "option_item list"
  | ViewsOpen ustring ustring
  | Query_open_tasks jsval
  | Query_task_by_id "ustring option"
  | Insert_task ustring "ustring option" "ustring option" ustring "ustring option"
  | PostMessage "ustring option" ustring
  | PostEphemeral ustring ustring ustring
  | ConsoleError ustring js_error

datatype outcome = Returned | Uncaught js_error

type_synonym run = "action list \<times> outcome"

text \<open>
  The collaborators of the handlers, as explicit dependencies: each field answers one
  call of the Postgres pool or of the Slack client, with the error it throws if any.
\<close>

record services =
  views_open :: "ustring \<Rightarrow> ustring \<Rightarrow> js_error option"
  query_open_tasks :: "jsval \<Rightarrow> js_error + task list"
  query_task_by_id :: "ustring option \<Rightarrow> js_error + task list"
  insert_task :: "ustring \<Rightarrow> ustring option \<Rightarrow> ustring option \<Rightarrow> ustring \<Rightarrow> ustring option \<Rightarrow> js_error option"
  post_message :: "ustring option \<Rightarrow> ustring \<Rightarrow> js_error option"
  post_ephemeral :: "ustring \<Rightarrow> ustring \<Rightarrow> ustring \<Rightarrow> js_error option"

subsection \<open>The option handler of \<^verbatim>\<open>task_select\<close>: finding the selected user\<close>

text \<open>
  The test of both inner loops:
  \<^verbatim>\<open>val && val.type === 'users_select' && val.selected_user\<close>.
\<close>

definition is_selection :: "jsval \<Rightarrow> bool" where
  "is_selection val =
     (truthy val \<and> get_prop val (lit ''type'') = Inr (J (JStr (lit ''users_select'')))
      \<and> (case get_prop val (lit ''selected_user'') of Inl e \<Rightarrow> False | Inr u \<Rightarrow> truthy u))"

definition selected_user_of :: "jsval \<Rightarrow> jsval" where
  "selected_user_of val =
     (case get_prop val (lit ''selected_user'') of Inl e \<Rightarrow> Undefined | Inr u \<Rightarrow> u)"

text \<open>
  The inner loop over the fields of one block, on the values it reads: it stops at the
  first field that passes the test and leaves \<^verbatim>\<open>selectedUser\<close> undefined otherwise.
\<close>

fun scan_block :: "jsval list \<Rightarrow> jsval" where
  "scan_block [] = Undefined"
| "scan_block (val # vals) =
     (if is_selection val then selected_user_of val else scan_block vals)"

text \<open>
  The outer loop of \<^verbatim>\<open>server.js\<close>: \<^verbatim>\<open>for (const blk in vs) { for (const inner in vs[blk])
  ... if (selectedUser) break; }\<close>.
\<close>

fun scan_blocks_srv :: "jsval list \<Rightarrow> jsval" where
  "scan_blocks_srv [] = Undefined"
| "scan_blocks_srv (block # blocks) =
     (let selectedUser = scan_block (for_in block)
      in if truthy selectedUser then selectedUser else scan_blocks_srv blocks)"

text \<open>
  The outer loop of \<^verbatim>\<open>part_000\<close>: \<^verbatim>\<open>for (const blockId of Object.keys(values)) { const
  block = values[blockId]; for (const actionId of Object.keys(block)) ... }\<close>.
\<close>

fun scan_blocks_p0 :: "jsval list \<Rightarrow> js_error + jsval" where
  "scan_blocks_p0 [] = Inr Undefined"
| "scan_blocks_p0 (block # blocks) =
     (case Object_keys block of
        Inl e \<Rightarrow> Inl e
      | Inr vals \<Rightarrow>
          (let selectedUser = scan_block vals
           in if truthy selectedUser then Inr selectedUser else scan_blocks_p0 blocks))"

text \<open>
  \<^verbatim>\<open>server.js\<close>: \<^verbatim>\<open>if (body.view && body.view.state) { const vs = body.view.state.values;
  ... }\<close>.
\<close>

definition find_selected_user_srv :: "jsval \<Rightarrow> js_error + jsval" where
  "find_selected_user_srv body =
     (case get_prop body (lit ''view'') of
        Inl e \<Rightarrow> Inl e
      | Inr view \<Rightarrow>
          if \<not> truthy view then Inr Undefined
          else (case get_prop view (lit ''state'') of
            Inl e \<Rightarrow> Inl e
          | Inr state \<Rightarrow>
              if \<not> truthy state then Inr Undefined
              else (case get_prop state (lit ''values'') of
                Inl e \<Rightarrow> Inl e
              | Inr vs \<Rightarrow> Inr (scan_blocks_srv (for_in vs)))))"

text \<open>
  \<^verbatim>\<open>part_000\<close>: \<^verbatim>\<open>if (body.view && body.view.state && body.view.state.values) { const
  values = body.view.state.values; ... }\<close>.
\<close>

definition find_selected_user_p0 :: "jsval \<Rightarrow> js_error + jsval" where
  "find_selected_user_p0 body =
     (case get_prop body (lit ''view'') of
        Inl e \<Rightarrow> Inl e
      | Inr view \<Rightarrow>
          if \<not> truthy view then Inr Undefined
          else (case get_prop view (lit ''state'') of
            Inl e \<Rightarrow> Inl e
          | Inr state \<Rightarrow>
              if \<not> truthy state then Inr Undefined
              else (case get_prop state (lit ''values'') of
                Inl e \<Rightarrow> Inl e
              | Inr values \<Rightarrow>
                  if \<not> truthy values then Inr Undefined
                  else (case Object_keys values of
                    Inl e \<Rightarrow> Inl e
                  | Inr blocks \<Rightarrow> scan_blocks_p0 blocks))))"

subsection \<open>The option handler of \<^verbatim>\<open>task_select\<close>: shaping the options\<close>

definition due_suffix :: "js_date \<Rightarrow> ustring" where
  "due_suffix d = lit '' '' @ em_dash @ lit '' due '' @ iso10 d"

text \<open>
  \<^verbatim>\<open>server.js\<close>: the label is \<^verbatim>\<open>`${r.task_text} \<emdash> due ${...}`\<close>, cut by
  \<^verbatim>\<open>label.slice(0,75)\<close>.
\<close>

definition option_of_row_srv :: "task \<Rightarrow> option_item" where
  "option_of_row_srv r =
     (let label = task_text r @ due_suffix (due_date r)
      in \<lparr>opt_text = slice0 75 label, opt_value = String_int (id_col r)\<rparr>)"

text \<open>
  \<^verbatim>\<open>part_000\<close>: \<^verbatim>\<open>label = `${r.task_text}`.length > 75 ? `${r.task_text.slice(0,72)}...` :
  r.task_text; text = `${label} \<emdash> due ${due}`\<close>.
\<close>

definition option_of_row_p0 :: "task \<Rightarrow> option_item" where
  "option_of_row_p0 r =
     (let due = iso10 (due_date r);
          label = (if length (task_text r) > 75 then slice0 72 (task_text r) @ lit ''...''
                   else task_text r);
          text = label @ lit '' '' @ em_dash @ lit '' due '' @ due
      in \<lparr>opt_text = text, opt_value = String_int (id_col r)\<rparr>)"

definition no_user_srv :: option_item where
  "no_user_srv = \<lparr>opt_text = lit ''Pick a user first'', opt_value = lit ''no_user''\<rparr>"

definition no_user_p0 :: option_item where
  "no_user_p0 = \<lparr>opt_text = lit ''Please select a user first'', opt_value = lit ''no_user''\<rparr>"

definition no_tasks_srv :: option_item where
  "no_tasks_srv = \<lparr>opt_text = lit ''No tasks for that user'', opt_value = lit ''no_tasks''\<rparr>"

definition no_tasks_p0 :: option_item where
  "no_tasks_p0 = \<lparr>opt_text = lit ''No tasks found for that user'', opt_value = lit ''no_tasks''\<rparr>"

definition err_option :: option_item where
  "err_option = \<lparr>opt_text = lit ''Error loading tasks'', opt_value = lit ''err''\<rparr>"

text \<open>
  The \<^verbatim>\<open>catch\<close> block of both option handlers: log, then acknowledge with the error
  placeholder.
\<close>

definition options_catch :: "js_error \<Rightarrow> action list" where
  "options_catch e = [ConsoleError (lit ''options handler error'') e, Ack_options [err_option]]"

text \<open>
  \<^verbatim>\<open>app.options('task_select', ...)\<close> of \<^verbatim>\<open>server.js\<close>. The whole body is inside
  \<^verbatim>\<open>try\<close>; the query is awaited before the acknowledgment that carries its rows.
\<close>

definition options_handler_srv :: "services \<Rightarrow> jsval \<Rightarrow> run" where
  "options_handler_srv sv body =
     (case find_selected_user_srv body of
        Inl e \<Rightarrow> (options_catch e, Returned)
      | Inr selectedUser \<Rightarrow>
          if \<not> truthy selectedUser then ([Ack_options [no_user_srv]], Returned)
          else (case query_open_tasks sv selectedUser of
            Inl e \<Rightarrow> (Query_open_tasks selectedUser # options_catch e, Returned)
          | Inr rows \<Rightarrow>
              (let optionsList = map option_of_row_srv rows
               in if length optionsList = 0
                  then ([Query_open_tasks selectedUser, Ack_options [no_tasks_srv]], Returned)
                  else ([Query_open_tasks selectedUser, Ack_options optionsList], Returned))))"

text \<open>
  \<^verbatim>\<open>app.options('task_select', ...)\<close> of \<^verbatim>\<open>part_000\<close>. \<^verbatim>\<open>res.rowCount\<close> of a SELECT is
  the number of rows returned.
\<close>

definition options_handler_p0 :: "services \<Rightarrow> jsval \<Rightarrow> run" where
  "options_handler_p0 sv body =
     (case find_selected_user_p0 body of
        Inl e \<Rightarrow> (options_catch e, Returned)
      | Inr selectedUser \<Rightarrow>
          if \<not> truthy selectedUser then ([Ack_options [no_user_p0]], Returned)
          else (case query_open_tasks sv selectedUser of
            Inl e \<Rightarrow> (Query_open_tasks selectedUser # options_catch e, Returned)
          | Inr rows \<Rightarrow>
              if length rows = 0
              then ([Query_open_tasks selectedUser, Ack_options [no_tasks_p0]], Returned)
              else ([Query_open_tasks selectedUser, Ack_options (map option_of_row_p0 rows)],
                    Returned)))"

subsection \<open>The slash commands\<close>

text \<open>
  \<^verbatim>\<open>app.command('/addtask', ...)\<close> and \<^verbatim>\<open>app.command('/reminduser', ...)\<close>:
  \<^verbatim>\<open>await ack()\<close>, then \<^verbatim>\<open>client.views.open\<close> of the modal inside \<^verbatim>\<open>try\<close>. The modal
  is a constant of the source and is named here by its \<^verbatim>\<open>callback_id\<close>. The variants differ
  in the label they log.
\<close>

definition open_modal :: "services \<Rightarrow> ustring \<Rightarrow> ustring \<Rightarrow> ustring \<Rightarrow> run" where
  "open_modal sv trigger_id callback_id log_label =
     (Ack_empty # ViewsOpen trigger_id callback_id #
        (case views_open sv trigger_id callback_id of
           None \<Rightarrow> []
         | Some err \<Rightarrow> [ConsoleError log_label err]),
      Returned)"

definition command_addtask_srv :: "services \<Rightarrow> ustring \<Rightarrow> run" where
  "command_addtask_srv sv trigger_id =
     open_modal sv trigger_id (lit ''add_task_view'') (lit ''open modal error'')"

definition command_addtask_p0 :: "services \<Rightarrow> ustring \<Rightarrow> run" where
  "command_addtask_p0 sv trigger_id =
     open_modal sv trigger_id (lit ''add_task_view'') (lit ''Error opening addtask modal:'')"

definition command_reminduser_srv :: "services \<Rightarrow> ustring \<Rightarrow> run" where
  "command_reminduser_srv sv trigger_id =
     open_modal sv trigger_id (lit ''send_reminder_view'') (lit ''open remind modal error'')"

definition command_reminduser_p0 :: "services \<Rightarrow> ustring \<Rightarrow> run" where
  "command_reminduser_p0 sv trigger_id =
     open_modal sv trigger_id (lit ''send_reminder_view'') (lit ''open remind modal error'')"

subsection \<open>Submission of the task form\<close>

text \<open>
  What the handler of \<^verbatim>\<open>add_task_view\<close> reads: \<^verbatim>\<open>body.user.id\<close>, the \<^verbatim>\<open>value\<close> of the
  two plain-text inputs of the modal (a string, or \<^verbatim>\<open>null\<close> for an empty input) and
  \<^verbatim>\<open>view.private_metadata\<close>. Both input blocks belong to the modal, so the platform
  always sends them; the \<^verbatim>\<open>?.\<close> of \<^verbatim>\<open>part_000\<close> then never cuts a chain short.
\<close>

record add_task_submission =
  submitter :: ustring
  task_input_value :: "ustring option"
  date_input_value :: "ustring option"
  private_metadata :: ustring

definition is_digit :: "16 word \<Rightarrow> bool" where
  "is_digit c = (0x30 \<le> c \<and> c \<le> 0x39)"

text \<open>\<^verbatim>\<open>/^\d{4}-\d{2}-\d{2}$/.test(s)\<close>: no flag, so \<^verbatim>\<open>$\<close> is the end of the input.\<close>

definition date_regex_test :: "ustring \<Rightarrow> bool" where
  "date_regex_test s =
     (length s = 10
      \<and> list_all is_digit (take 4 s) \<and> s ! 4 = 0x2D
      \<and> list_all is_digit (take 2 (drop 5 s)) \<and> s ! 7 = 0x2D
      \<and> list_all is_digit (drop 8 s))"

definition saved_text :: "ustring \<Rightarrow> ustring \<Rightarrow> ustring" where
  "saved_text task dueDate =
     check_mark @ lit '' Your task was saved:'' @ newline @ lit ''*'' @ task @ lit ''*''
     @ newline @ lit ''Due: '' @ dueDate"

text \<open>
  \<^verbatim>\<open>try { await client.chat.postEphemeral(...) } catch (e) { console.error(label, e) }\<close>
  to the invoker, in the conversation with the invoker.
\<close>

definition try_ephemeral :: "services \<Rightarrow> ustring \<Rightarrow> ustring \<Rightarrow> ustring \<Rightarrow> action list" where
  "try_ephemeral sv user notice log_label =
     PostEphemeral user user notice #
       (case post_ephemeral sv user user notice of
          None \<Rightarrow> []
        | Some e \<Rightarrow> [ConsoleError log_label e])"

text \<open>
  \<^verbatim>\<open>app.view('add_task_view', ...)\<close> of \<^verbatim>\<open>server.js\<close>: no check of the fields; the insert
  and the direct message each have a \<^verbatim>\<open>try\<close> of their own.
\<close>

definition add_task_view_srv :: "services \<Rightarrow> add_task_submission \<Rightarrow> run" where
  "add_task_view_srv sv sub =
     (let user = submitter sub;
          task = task_input_value sub;
          dueDate = date_input_value sub;
          channel = (if private_metadata sub = [] then None else Some (private_metadata sub));
          text = saved_text (interpolate task) (interpolate dueDate)
      in (Ack_empty # Insert_task user task dueDate user channel #
            (case insert_task sv user task dueDate user channel of
               None \<Rightarrow> []
             | Some err \<Rightarrow> [ConsoleError (lit ''DB insert error'') err])
          @ PostMessage (Some user) text #
            (case post_message sv (Some user) text of
               None \<Rightarrow> []
             | Some err \<Rightarrow> [ConsoleError (lit ''DM user error'') err]),
          Returned))"

text \<open>
  \<^verbatim>\<open>app.view('add_task_view', ...)\<close> of \<^verbatim>\<open>part_000\<close>: the check
  \<^verbatim>\<open>!taskText || !/^\d{4}-\d{2}-\d{2}$/.test(dueDateRaw)\<close>, then the insert and the
  direct message in one \<^verbatim>\<open>try\<close>. The insert names four columns and leaves
  \<^verbatim>\<open>channel_id\<close> null.
\<close>

definition add_task_invalid_p0 :: "ustring \<Rightarrow> ustring \<Rightarrow> bool" where
  "add_task_invalid_p0 taskText dueDateRaw = (taskText = [] \<or> \<not> date_regex_test dueDateRaw)"

definition add_task_failure_p0 :: "services \<Rightarrow> ustring \<Rightarrow> js_error \<Rightarrow> action list" where
  "add_task_failure_p0 sv user err =
     ConsoleError (lit ''DB insert or DM error'') err #
       try_ephemeral sv user (lit ''Failed to save task (server error).'')
         (lit ''ephemeral send failed'')"

definition add_task_view_p0 :: "services \<Rightarrow> add_task_submission \<Rightarrow> run" where
  "add_task_view_p0 sv sub =
     (let user = submitter sub;
          taskText = or_empty (task_input_value sub);
          dueDateRaw = or_empty (date_input_value sub)
      in if add_task_invalid_p0 taskText dueDateRaw
         then (Ack_empty #
                 try_ephemeral sv user
                   (lit ''Task not saved. Ensure you provided a task and date in YYYY-MM-DD format.'')
                   (lit ''error sending ephemeral''),
               Returned)
         else (let text = saved_text taskText dueDateRaw
               in (Ack_empty # Insert_task user (Some taskText) (Some dueDateRaw) user None #
                     (case insert_task sv user (Some taskText) (Some dueDateRaw) user None of
                        Some err \<Rightarrow> add_task_failure_p0 sv user err
                      | None \<Rightarrow>
                          PostMessage (Some user) text #
                            (case post_message sv (Some user) text of
                               Some err \<Rightarrow> add_task_failure_p0 sv user err
                             | None \<Rightarrow> [])),
                   Returned)))"

text \<open>
  The validity of a task-creation submission in the words of the specification: the text
  is non-empty after trimming and the date has the lexical form. \<^verbatim>\<open>trim\<close> removes the
  white space and line terminators of ECMAScript at both ends.
\<close>

definition is_white_space :: "16 word \<Rightarrow> bool" where
  "is_white_space c =
     (c \<in> set [0x09, 0x0A, 0x0B, 0x0C, 0x0D, 0x20, 0xA0, 0x1680, 0x2028, 0x2029, 0x202F,
              0x205F, 0x3000, 0xFEFF]
      \<or> (0x2000 \<le> c \<and> c \<le> 0x200A))"

definition trim :: "ustring \<Rightarrow> ustring" where
  "trim s = rev (dropWhile is_white_space (rev (dropWhile is_white_space s)))"

definition spec_valid_task_creation :: "add_task_submission \<Rightarrow> bool" where
  "spec_valid_task_creation sub =
     (trim (or_empty (task_input_value sub)) \<noteq> []
      \<and> date_regex_test (or_empty (date_input_value sub)))"

subsection \<open>Submission of the reminder form\<close>

text \<open>
  What the handler of \<^verbatim>\<open>send_reminder_view\<close> reads: \<^verbatim>\<open>body.user.id\<close>, the
  \<^verbatim>\<open>selected_user\<close> of the user picker (\<^verbatim>\<open>null\<close> when none is picked), the \<^verbatim>\<open>value\<close>
  of the \<^verbatim>\<open>selected_option\<close> of the task picker (\<open>None\<close> when \<^verbatim>\<open>selected_option\<close> is
  \<^verbatim>\<open>null\<close>) and the \<^verbatim>\<open>value\<close> of the optional message.
\<close>

record reminder_submission =
  ceo :: ustring
  selected_user :: "ustring option"
  selected_option_value :: "ustring option"
  custom_message_value :: "ustring option"

definition reminder_text :: "task \<Rightarrow> ustring \<Rightarrow> ustring" where
  "reminder_text t customMsg =
     bell @ lit '' *Reminder* about your task:'' @ newline @ lit ''*'' @ task_text t @ lit ''*''
     @ newline @ lit ''Due: '' @ iso10 (due_date t) @ newline @ newline @ customMsg"

definition sent_text :: "ustring option \<Rightarrow> ustring option \<Rightarrow> ustring" where
  "sent_text userSelect taskId =
     lit ''Reminder sent to <@'' @ interpolate userSelect @ lit ''> for task id ''
     @ interpolate taskId @ lit ''.''"

text \<open>
  The \<^verbatim>\<open>catch\<close> block of \<^verbatim>\<open>server.js\<close>: the notice is sent outside any \<^verbatim>\<open>try\<close>, so its
  failure leaves the handler.
\<close>

definition reminder_failure_srv :: "services \<Rightarrow> ustring \<Rightarrow> js_error \<Rightarrow> run" where
  "reminder_failure_srv sv c err =
     (let notice = lit ''Failed to send reminder: '' @ message err
      in ([ConsoleError (lit ''send reminder error'') err, PostEphemeral c c notice],
          (case post_ephemeral sv c c notice of None \<Rightarrow> Returned | Some e \<Rightarrow> Uncaught e)))"

definition prepend :: "action list \<Rightarrow> run \<Rightarrow> run" where
  "prepend as r = (as @ fst r, snd r)"

text \<open>
  \<^verbatim>\<open>app.view('send_reminder_view', ...)\<close> of \<^verbatim>\<open>server.js\<close>: no check of the selections;
  the task id goes to the store as it is.
\<close>

definition send_reminder_view_srv :: "services \<Rightarrow> reminder_submission \<Rightarrow> run" where
  "send_reminder_view_srv sv sub =
     (let c = ceo sub;
          userSelect = selected_user sub;
          taskId = selected_option_value sub;
          customMsg = custom_message_value sub
      in prepend [Ack_empty, Query_task_by_id taskId]
           (case query_task_by_id sv taskId of
              Inl err \<Rightarrow> reminder_failure_srv sv c err
            | Inr [] \<Rightarrow>
                prepend [PostEphemeral c c (lit ''Task not found.'')]
                  (case post_ephemeral sv c c (lit ''Task not found.'') of
                     Some err \<Rightarrow> reminder_failure_srv sv c err
                   | None \<Rightarrow> ([], Returned))
            | Inr (task # rest) \<Rightarrow>
                (let text = reminder_text task (or_empty customMsg)
                 in prepend [PostMessage userSelect text]
                      (case post_message sv userSelect text of
                         Some err \<Rightarrow> reminder_failure_srv sv c err
                       | None \<Rightarrow>
                           prepend [PostEphemeral c c (sent_text userSelect taskId)]
                             (case post_ephemeral sv c c (sent_text userSelect taskId) of
                                Some err \<Rightarrow> reminder_failure_srv sv c err
                              | None \<Rightarrow> ([], Returned))))))"

text \<open>
  \<^verbatim>\<open>app.view('send_reminder_view', ...)\<close> of \<^verbatim>\<open>part_000\<close>: the check
  \<^verbatim>\<open>!userSelected || !taskId\<close>, then the lookup and the messages in one \<^verbatim>\<open>try\<close>.
\<close>

definition reminder_invalid_p0 :: "ustring option \<Rightarrow> ustring option \<Rightarrow> bool" where
  "reminder_invalid_p0 userSelected taskId = (\<not> truthy_str userSelected \<or> \<not> truthy_str taskId)"

definition select_both :: ustring where
  "select_both = lit ''Please select both a user and a task.''"

definition reminder_failure_p0 :: "services \<Rightarrow> ustring \<Rightarrow> js_error \<Rightarrow> action list" where
  "reminder_failure_p0 sv c err =
     ConsoleError (lit ''send reminder error'') err #
       try_ephemeral sv c (lit ''Failed to send reminder (server error).'') (lit ''ephemeral error'')"

definition send_reminder_view_p0 :: "services \<Rightarrow> reminder_submission \<Rightarrow> run" where
  "send_reminder_view_p0 sv sub =
     (let c = ceo sub;
          userSelected = selected_user sub;
          taskId = selected_option_value sub;
          customMsg = or_empty (custom_message_value sub)
      in if reminder_invalid_p0 userSelected taskId
         then (Ack_empty # try_ephemeral sv c select_both (lit ''ephemeral send failed''), Returned)
         else (Ack_empty # Query_task_by_id taskId #
                 (case query_task_by_id sv taskId of
                    Inl err \<Rightarrow> reminder_failure_p0 sv c err
                  | Inr [] \<Rightarrow>
                      PostEphemeral c c (lit ''Task not found (may have been deleted).'') #
                        (case post_ephemeral sv c c (lit ''Task not found (may have been deleted).'') of
                           Some err \<Rightarrow> reminder_failure_p0 sv c err
                         | None \<Rightarrow> [])
                  | Inr (task # rest) \<Rightarrow>
                      (let text = reminder_text task customMsg
                       in PostMessage userSelected text #
                            (case post_message sv userSelected text of
                               Some err \<Rightarrow> reminder_failure_p0 sv c err
                             | None \<Rightarrow>
                                 PostEphemeral c c (sent_text userSelected taskId) #
                                   (case post_ephemeral sv c c (sent_text userSelected taskId) of
                                      Some err \<Rightarrow> reminder_failure_p0 sv c err
                                    | None \<Rightarrow> [])))),
               Returned))"

subsection \<open>Inbound interactions\<close>

text \<open>
  The five callbacks each variant registers: two slash commands (with the trigger id of
  the invocation), the option request of \<^verbatim>\<open>task_select\<close> (with its body) and the two
  form submissions.
\<close>

datatype interaction =
    Command_addtask ustring
  | Command_reminduser ustring
  | Options_task_select jsval
  | View_add_task add_task_submission
  | View_send_reminder reminder_submission

fun handle_srv :: "services \<Rightarrow> interaction \<Rightarrow> run" where
  "handle_srv sv (Command_addtask trigger_id) = command_addtask_srv sv trigger_id"
| "handle_srv sv (Command_reminduser trigger_id) = command_reminduser_srv sv trigger_id"
| "handle_srv sv (Options_task_select body) = options_handler_srv sv body"
| "handle_srv sv (View_add_task sub) = add_task_view_srv sv sub"
| "handle_srv sv (View_send_reminder sub) = send_reminder_view_srv sv sub"

fun handle_p0 :: "services \<Rightarrow> interaction \<Rightarrow> run" where
  "handle_p0 sv (Command_addtask trigger_id) = command_addtask_p0 sv trigger_id"
| "handle_p0 sv (Command_reminduser trigger_id) = command_reminduser_p0 sv trigger_id"
| "handle_p0 sv (Options_task_select body) = options_handler_p0 sv body"
| "handle_p0 sv (View_add_task sub) = add_task_view_p0 sv sub"
| "handle_p0 sv (View_send_reminder sub) = send_reminder_view_p0 sv sub"

fun is_ack :: "action \<Rightarrow> bool" where
  "is_ack Ack_empty = True"
| "is_ack (Ack_options opts) = True"
| "is_ack a = False"

fun is_store_access :: "action \<Rightarrow> bool" where
  "is_store_access (Query_open_tasks u) = True"
| "is_store_access (Query_task_by_id i) = True"
| "is_store_access (Insert_task u t d c ch) = True"
| "is_store_access a = False"

fun is_store_write :: "action \<Rightarrow> bool" where
  "is_store_write (Insert_task u t d c ch) = True"
| "is_store_write a = False"

fun is_dispatch :: "action \<Rightarrow> bool" where
  "is_dispatch (PostMessage ch t) = True"
| "is_dispatch a = False"

text \<open>The option lists a run acknowledged with, one per acknowledgment.\<close>

fun acked_options :: "action list \<Rightarrow> option_item list list" where
  "acked_options [] = []"
| "acked_options (Ack_options opts # as) = opts # acked_options as"
| "acked_options (a # as) = acked_options as"

definition acks :: "action list \<Rightarrow> nat" where
  "acks as = length (filter is_ack as)"

subsection \<open>Startup\<close>

text \<open>
  The environment variables both variants read, \<open>None\<close> for an unset one.
\<close>

record environment =
  SLACK_BOT_TOKEN :: "ustring option"
  SLACK_SIGNING_SECRET :: "ustring option"
  DATABASE_URL :: "ustring option"
  PORT :: "ustring option"

text \<open>
  The port a variant listens on: the literal 3000, \<^verbatim>\<open>parseInt(process.env.PORT, 10)\<close>
  (\<^verbatim>\<open>part_000\<close>) or the string \<^verbatim>\<open>process.env.PORT\<close> itself (\<^verbatim>\<open>server.js\<close>).
\<close>

datatype port = Port_literal nat | Port_parseInt ustring | Port_string ustring

text \<open>
  What the top level of a variant does, in order. \<open>Listen\<close> is the point from which
  the process accepts traffic; \<open>Exit\<close> is \<^verbatim>\<open>process.exit\<close> with its status. What the
  constructors of the libraries do with an undefined argument is theirs and not modelled.
\<close>

datatype startup_action =
    Log_error ustring
  | Exit nat
  | New_receiver "ustring option"
  | New_app "ustring option"
  | New_pool "ustring option"
  | InitDB
  | Listen port

text \<open>
  \<^verbatim>\<open>server.js\<close>: no check of the environment. \<^verbatim>\<open>initDB()\<close> is started and
  \<^verbatim>\<open>app.start(PORT)\<close> is called before its query settles; a failure of \<^verbatim>\<open>initDB\<close> is
  logged.
\<close>

definition startup_srv :: "environment \<Rightarrow> js_error option \<Rightarrow> startup_action list" where
  "startup_srv env db_init =
     [New_receiver (SLACK_SIGNING_SECRET env), New_app (SLACK_BOT_TOKEN env),
      New_pool (DATABASE_URL env), InitDB,
      Listen (if truthy_str (PORT env) then Port_string (or_empty (PORT env)) else Port_literal 3000)]
     @ (case db_init of None \<Rightarrow> [] | Some err \<Rightarrow> [Log_error (lit ''DB init error'')])"

text \<open>
  \<^verbatim>\<open>part_000\<close>: \<^verbatim>\<open>if (!SLACK_BOT_TOKEN || !SLACK_SIGNING_SECRET || !DATABASE_URL) {
  console.error(...); process.exit(1); }\<close> comes first; a failure of \<^verbatim>\<open>initDB\<close> is logged
  and ends the process with status 1.
\<close>

definition missing_required :: "environment \<Rightarrow> bool" where
  "missing_required env =
     (\<not> truthy_str (SLACK_BOT_TOKEN env) \<or> \<not> truthy_str (SLACK_SIGNING_SECRET env)
      \<or> \<not> truthy_str (DATABASE_URL env))"

definition startup_p0 :: "environment \<Rightarrow> js_error option \<Rightarrow> startup_action list" where
  "startup_p0 env db_init =
     (if missing_required env
      then [Log_error (lit ''Missing required environment variables. Set SLACK_BOT_TOKEN, SLACK_SIGNING_SECRET and DATABASE_URL.''),
            Exit 1]
      else [New_receiver (SLACK_SIGNING_SECRET env), New_app (SLACK_BOT_TOKEN env),
            New_pool (DATABASE_URL env), InitDB,
            Listen (if truthy_str (PORT env) then Port_parseInt (or_empty (PORT env))
                    else Port_literal 3000)]
           @ (case db_init of
                None \<Rightarrow> []
              | Some err \<Rightarrow> [Log_error (lit ''DB init failed''), Exit 1]))"

fun is_listen :: "startup_action \<Rightarrow> bool" where
  "is_listen (Listen p) = True"
| "is_listen a = False"

text \<open>
  The process exits with a non-zero status before it accepts traffic: the first
  \<open>Exit\<close> of the run has a non-zero status and no \<open>Listen\<close> stands before it.
\<close>

fun exits_before_traffic :: "startup_action list \<Rightarrow> bool" where
  "exits_before_traffic [] = False"
| "exits_before_traffic (Exit n # as) = (n \<noteq> 0)"
| "exits_before_traffic (Listen p # as) = False"
| "exits_before_traffic (a # as) = exits_before_traffic as"

subsection \<open>Sample inputs\<close>

text \<open>
  Concrete inputs on which the theorems below are instantiated: a body of the option
  request as the platform sends it for the reminder modal once the user \<open>U1\<close> is picked,
  and collaborators that answer every call without an error and hold no task.
\<close>

definition user_U1 :: ustring where
  "user_U1 = lit ''U1''"

definition picked_user_body :: jsval where
  "picked_user_body =
     J (JObj [(lit ''view'', JObj [(lit ''state'', JObj [(lit ''values'', JObj
       [(lit ''user_select_block'', JObj [(lit ''user_select'', JObj
          [(lit ''type'', JStr (lit ''users_select'')), (lit ''selected_user'', JStr user_U1)])]),
        (lit ''task_select_block'', JObj [(lit ''task_select'', JObj
          [(lit ''type'', JStr (lit ''external_select'')), (lit ''selected_option'', JNull)])])])])])])"

definition idle_services :: services where
  "idle_services =
     \<lparr>views_open = (\<lambda>trigger_id callback_id. None),
      query_open_tasks = (\<lambda>u. Inr []),
      query_task_by_id = (\<lambda>i. Inr []),
      insert_task = (\<lambda>u t d c ch. None),
      post_message = (\<lambda>ch t. None),
      post_ephemeral = (\<lambda>ch u t. None)\<rparr>"

definition store_down :: js_error where
  "store_down = StoreError (lit ''connection refused'')"

text \<open>
  The same collaborators with a store that answers every query for open tasks with the
  given rows, and with a store whose every query for open tasks fails.
\<close>

definition store_answering :: "task list \<Rightarrow> services" where
  "store_answering rows = idle_services\<lparr>query_open_tasks := \<lambda>u. Inr rows\<rparr>"

definition store_failing :: services where
  "store_failing = idle_services\<lparr>query_open_tasks := \<lambda>u. Inl store_down\<rparr>"


text \<open>A snapshot whose only block is \<^verbatim>\<open>null\<close>.\<close>

definition null_block_body :: jsval where
  "null_block_body =
     J (JObj [(lit ''view'', JObj [(lit ''state'', JObj [(lit ''values'', JObj
       [(lit ''user_select_block'', JNull)])])])])"

text \<open>An open task of \<open>U1\<close> with id 1, due 2025-03-01, whose text is \<open>n\<close> letters a.\<close>

definition sample_task :: "nat \<Rightarrow> task" where
  "sample_task n =
     \<lparr>id_col = 1, user_id = user_U1, task_text = replicate n 0x61,
      due_date = \<lparr>year = 2025, month = 3, day = 1\<rparr>,
      created_by = Some user_U1, channel_id = None, completed = False\<rparr>"

text \<open>
  An environment without \<^verbatim>\<open>DATABASE_URL\<close>; a task form whose text is one space; a task
  form without text; a reminder form whose task selection carries the sentinel
  \<open>no_user\<close>; a reminder form without a user; the error of the store on a task id that
  is not an integer.
\<close>

definition env_without_database :: environment where
  "env_without_database =
     \<lparr>SLACK_BOT_TOKEN = Some (lit ''xoxb-1''), SLACK_SIGNING_SECRET = Some (lit ''s3cret''),
      DATABASE_URL = None, PORT = None\<rparr>"

definition blank_submission :: add_task_submission where
  "blank_submission =
     \<lparr>submitter = user_U1, task_input_value = Some (lit '' ''),
      date_input_value = Some (lit ''2024-01-01''), private_metadata = []\<rparr>"

definition user_U0 :: ustring where
  "user_U0 = lit ''U0''"

definition sentinel_submission :: reminder_submission where
  "sentinel_submission =
     \<lparr>ceo = user_U0, selected_user = Some user_U1,
      selected_option_value = Some (lit ''no_user''), custom_message_value = None\<rparr>"

definition invalid_id :: js_error where
  "invalid_id = StoreError (lit ''invalid input syntax for type integer'')"

definition store_refusing_id :: services where
  "store_refusing_id = idle_services\<lparr>query_task_by_id := \<lambda>i. Inl invalid_id\<rparr>"

definition empty_task_submission :: add_task_submission where
  "empty_task_submission =
     \<lparr>submitter = user_U1, task_input_value = None,
      date_input_value = Some (lit ''2024-13-40''), private_metadata = []\<rparr>"

definition no_user_submission :: reminder_submission where
  "no_user_submission =
     \<lparr>ceo = user_U0, selected_user = None,
      selected_option_value = Some (lit ''7''), custom_message_value = None\<rparr>"

text \<open>The task of the specification's end-to-end example, with id 42.\<close>

definition ship_report :: task where
  "ship_report =
     \<lparr>id_col = 42, user_id = user_U1, task_text = lit ''Ship report'',
      due_date = \<lparr>year = 2025, month = 3, day = 1\<rparr>,
      created_by = Some user_U1, channel_id = None, completed = False\<rparr>"

subsection \<open>Notions of the specification\<close>

text \<open>
  The blocks of a form snapshot: the values of the own properties of
  \<^verbatim>\<open>body.view.state.values\<close>, none where a step of that path is missing. A snapshot
  carries no selection when no field of any of its blocks is a user picker with a
  non-empty selection.
\<close>

definition snapshot_blocks :: "jsval \<Rightarrow> jsval list" where
  "snapshot_blocks body =
     (case get_prop body (lit ''view'') of
        Inl e \<Rightarrow> []
      | Inr view \<Rightarrow>
          (case get_prop view (lit ''state'') of
             Inl e \<Rightarrow> []
           | Inr state \<Rightarrow>
               (case get_prop state (lit ''values'') of
                  Inl e \<Rightarrow> []
                | Inr values \<Rightarrow> own_values values)))"

definition no_selection :: "jsval \<Rightarrow> bool" where
  "no_selection body =
     (\<forall>block \<in> set (snapshot_blocks body). \<forall>field \<in> set (own_values block).
        \<not> is_selection field)"


text \<open>
  The reminder form in the words of the specification: a submission is invalid when the
  user selection is absent, the task selection is absent, or the task selection's value
  is one of the three sentinel tokens; it is rejected when no reminder is dispatched and
  the invoker is sent, privately, the notice that names the fields to fill in.
\<close>

definition sentinel_tokens :: "ustring list" where
  "sentinel_tokens = [lit ''no_user'', lit ''no_tasks'', lit ''err'']"

definition spec_invalid_reminder :: "reminder_submission \<Rightarrow> bool" where
  "spec_invalid_reminder sub =
     (selected_user sub = None \<or> selected_option_value sub = None
      \<or> or_empty (selected_option_value sub) \<in> set sentinel_tokens)"

definition spec_rejected :: "reminder_submission \<Rightarrow> action list \<Rightarrow> bool" where
  "spec_rejected sub as =
     (list_all (\<lambda>a. \<not> is_dispatch a) as \<and> PostEphemeral (ceo sub) (ceo sub) select_both \<in> set as)"

text \<open>The option request is the one interaction whose acknowledgment carries data.\<close>

fun is_option_request :: "interaction \<Rightarrow> bool" where
  "is_option_request (Options_task_select body) = True"
| "is_option_request i = False"

text \<open>
  The number a string of decimal digits denotes, and the integer a decimal string with
  an optional leading minus sign denotes: the readings against which \<open>String_int\<close> is
  a decimal rendering.
\<close>

definition digit_value :: "16 word \<Rightarrow> nat" where
  "digit_value c = unat c - 48"

definition decimal_value :: "ustring \<Rightarrow> nat" where
  "decimal_value s = foldl (\<lambda>a c. 10 * a + digit_value c) 0 s"

definition int_of_decimal :: "ustring \<Rightarrow> int" where
  "int_of_decimal s =
     (case s of
        [] \<Rightarrow> 0
      | c # ds \<Rightarrow> if c = 0x2D then - int (decimal_value ds) else int (decimal_value s))"

section \<open>Properties\<close>

subsection \<open>Strings and values\<close>

lemma length_lit [simp]: "length (lit s) = length s"
  by (simp add: lit_def)

lemma length_toISOString: "10 \<le> length (toISOString d)"
  by (simp add: toISOString_def)

lemma length_iso10 [simp]: "length (iso10 d) = 10"
  unfolding iso10_def slice0_def length_take using length_toISOString [of d] by simp

lemma length_due_suffix [simp]: "length (due_suffix d) = 17"
  by (simp add: due_suffix_def em_dash_def)

lemma get_prop_truthy: "truthy v \<Longrightarrow> \<exists>w. get_prop v k = Inr w"
  by (cases "(v, k)" rule: get_prop.cases) auto

lemma Object_keys_truthy: "truthy v \<Longrightarrow> Object_keys v = Inr (own_values v)"
  by (cases v rule: Object_keys.cases) auto


lemma own_values_falsy: "\<not> truthy v \<Longrightarrow> own_values v = []"
  by (cases v rule: truthy.cases) auto

subsection \<open>The two scans of the snapshot\<close>



lemma find_picked_srv: "find_selected_user_srv picked_user_body = Inr (J (JStr user_U1))"
  by (simp add: find_selected_user_srv_def picked_user_body_def for_in_def is_selection_def
      selected_user_of_def user_U1_def lit_def)

lemma find_picked_p0: "find_selected_user_p0 picked_user_body = Inr (J (JStr user_U1))"
  by (simp add: find_selected_user_p0_def picked_user_body_def is_selection_def
      selected_user_of_def user_U1_def lit_def)

lemma truthy_U1: "truthy (J (JStr user_U1))"
  by (simp add: user_U1_def lit_def)

lemma query_store_answering [simp]: "query_open_tasks (store_answering rows) u = Inr rows"
  by (simp add: store_answering_def)

lemma query_store_failing [simp]: "query_open_tasks store_failing u = Inl store_down"
  by (simp add: store_failing_def)

lemma store_refusing_id_simps [simp]:
  "query_task_by_id store_refusing_id i = Inl invalid_id"
  "post_ephemeral store_refusing_id ch u t = None"
  by (simp_all add: store_refusing_id_def idle_services_def)

subsection \<open>Placeholders of the option handler\<close>

text \<open>
  Claim C6. When the scan of the snapshot resolves a user and the store answers the
  query for that user's open tasks with zero rows, each variant acknowledges once, with
  exactly one option, its "no tasks" placeholder, whose value is the token \<open>no_tasks\<close>.
\<close>

theorem no_tasks_placeholder:
  assumes "truthy u" and "query_open_tasks sv u = Inr []"
  shows "(find_selected_user_srv body = Inr u \<longrightarrow>
            options_handler_srv sv body =
              ([Query_open_tasks u, Ack_options [no_tasks_srv]], Returned)
            \<and> acked_options (fst (options_handler_srv sv body)) = [[no_tasks_srv]])
       \<and> (find_selected_user_p0 body = Inr u \<longrightarrow>
            options_handler_p0 sv body =
              ([Query_open_tasks u, Ack_options [no_tasks_p0]], Returned)
            \<and> acked_options (fst (options_handler_p0 sv body)) = [[no_tasks_p0]])
       \<and> opt_value no_tasks_srv = lit ''no_tasks'' \<and> opt_value no_tasks_p0 = lit ''no_tasks''"
  using assms
  by (simp add: options_handler_srv_def options_handler_p0_def no_tasks_srv_def no_tasks_p0_def)

theorem no_tasks_placeholder_witness:
  "truthy (J (JStr user_U1)) \<and> query_open_tasks idle_services (J (JStr user_U1)) = Inr []
   \<and> find_selected_user_srv picked_user_body = Inr (J (JStr user_U1))
   \<and> find_selected_user_p0 picked_user_body = Inr (J (JStr user_U1))
   \<and> acked_options (fst (options_handler_srv idle_services picked_user_body)) = [[no_tasks_srv]]
   \<and> acked_options (fst (options_handler_p0 idle_services picked_user_body)) = [[no_tasks_p0]]"
proof -
  have q: "query_open_tasks idle_services (J (JStr user_U1)) = Inr []"
    by (simp add: idle_services_def)
  from no_tasks_placeholder [OF truthy_U1 q, of picked_user_body]
    find_picked_srv find_picked_p0 truthy_U1 q
  show ?thesis by simp
qed

text \<open>
  Claim C7. When the scan of the snapshot resolves a user and the query for that user's
  open tasks raises an error, each variant logs the error and acknowledges once, with
  exactly one option, the "error loading" placeholder, whose value is the token \<open>err\<close>;
  the handler returns, so the error does not leave it.
\<close>

theorem store_error_placeholder:
  assumes "truthy u" and "query_open_tasks sv u = Inl e"
  shows "(find_selected_user_srv body = Inr u \<longrightarrow>
            options_handler_srv sv body =
              ([Query_open_tasks u, ConsoleError (lit ''options handler error'') e,
                Ack_options [err_option]], Returned)
            \<and> acked_options (fst (options_handler_srv sv body)) = [[err_option]])
       \<and> (find_selected_user_p0 body = Inr u \<longrightarrow>
            options_handler_p0 sv body =
              ([Query_open_tasks u, ConsoleError (lit ''options handler error'') e,
                Ack_options [err_option]], Returned)
            \<and> acked_options (fst (options_handler_p0 sv body)) = [[err_option]])
       \<and> opt_value err_option = lit ''err''"
  using assms
  by (simp add: options_handler_srv_def options_handler_p0_def options_catch_def err_option_def)

theorem store_error_placeholder_witness:
  "truthy (J (JStr user_U1))
   \<and> query_open_tasks store_failing (J (JStr user_U1)) = Inl store_down
   \<and> find_selected_user_srv picked_user_body = Inr (J (JStr user_U1))
   \<and> find_selected_user_p0 picked_user_body = Inr (J (JStr user_U1))
   \<and> acked_options (fst (options_handler_srv store_failing picked_user_body)) = [[err_option]]
   \<and> snd (options_handler_p0 store_failing picked_user_body) = Returned"
proof -
  have q: "query_open_tasks store_failing (J (JStr user_U1)) = Inl store_down"
    by simp
  from store_error_placeholder [OF truthy_U1 q, of picked_user_body]
    find_picked_srv find_picked_p0 truthy_U1 q
  show ?thesis by simp
qed

subsection \<open>What the scans return\<close>

lemma get_prop_falsy: "\<not> truthy v \<Longrightarrow> get_prop v k = Inr w \<Longrightarrow> w = Undefined"
  by (cases "(v, k)" rule: get_prop.cases) auto

lemma get_prop_Inl: "get_prop v k = Inl e \<Longrightarrow> \<not> truthy v"
  by (cases "(v, k)" rule: get_prop.cases) auto

lemma own_values_defined: "Undefined \<notin> set (own_values v)"
  by (cases v rule: own_values.cases) auto

lemma snapshot_blocks_defined: "Undefined \<notin> set (snapshot_blocks body)"
  by (simp add: snapshot_blocks_def own_values_defined split: sum.splits)

lemma scan_block_none:
  "\<forall>field \<in> set vals. \<not> is_selection field \<Longrightarrow> scan_block vals = Undefined"
  by (induction vals) auto

lemma scan_blocks_srv_none:
  "\<forall>block \<in> set blocks. \<forall>field \<in> set (own_values block). \<not> is_selection field
   \<Longrightarrow> scan_blocks_srv blocks = Undefined"
  by (induction blocks) (auto simp: Let_def for_in_def scan_block_none)

text \<open>
  On a body that is an object, the scan of \<^verbatim>\<open>server.js\<close> never throws: it is the scan
  of the snapshot's blocks.
\<close>

lemma find_srv_blocks:
  "truthy body \<Longrightarrow> find_selected_user_srv body = Inr (scan_blocks_srv (snapshot_blocks body))"
  unfolding find_selected_user_srv_def snapshot_blocks_def
  by (auto simp: for_in_def split: sum.splits dest: get_prop_falsy get_prop_Inl)

text \<open>
  \<^verbatim>\<open>Object.keys(block)\<close> of \<^verbatim>\<open>part_000\<close> throws on a \<^verbatim>\<open>null\<close> block; where no block is
  \<^verbatim>\<open>null\<close>, both scans return the same value.
\<close>

lemma scan_blocks_p0_total:
  "J JNull \<notin> set blocks \<Longrightarrow> Undefined \<notin> set blocks
   \<Longrightarrow> scan_blocks_p0 blocks = Inr (scan_blocks_srv blocks)"
proof (induction blocks)
  case Nil
  then show ?case by simp
next
  case (Cons b bs)
  then have "Object_keys b = Inr (own_values b)"
    by (cases b rule: Object_keys.cases) auto
  with Cons show ?case by (simp add: Let_def for_in_def)
qed

lemma find_p0_blocks:
  assumes "truthy body" and "J JNull \<notin> set (snapshot_blocks body)"
  shows "find_selected_user_p0 body = Inr (scan_blocks_srv (snapshot_blocks body))"
proof -
  have u: "Undefined \<notin> set (snapshot_blocks body)" by (rule snapshot_blocks_defined)
  show ?thesis
    using assms u unfolding find_selected_user_p0_def snapshot_blocks_def
    by (auto simp: Object_keys_truthy scan_blocks_p0_total own_values_falsy
        split: sum.splits dest: get_prop_falsy get_prop_Inl)
qed


subsection \<open>A snapshot without a selection\<close>

text \<open>
  \<^verbatim>\<open>server.js\<close> answers every snapshot without a selection with its "pick a user first"
  placeholder; \<^verbatim>\<open>part_000\<close> does so when no block of the snapshot is \<^verbatim>\<open>null\<close>.
\<close>

lemma no_user_srv_general:
  assumes "truthy body" and "no_selection body"
  shows "options_handler_srv sv body = ([Ack_options [no_user_srv]], Returned)"
  using assms
  by (simp add: options_handler_srv_def find_srv_blocks no_selection_def scan_blocks_srv_none)

lemma no_user_p0_general:
  assumes "truthy body" and "no_selection body" and "J JNull \<notin> set (snapshot_blocks body)"
  shows "options_handler_p0 sv body = ([Ack_options [no_user_p0]], Returned)"
  using assms
  by (simp add: options_handler_p0_def find_p0_blocks no_selection_def scan_blocks_srv_none)

lemma null_block_p0:
  "options_handler_p0 sv null_block_body = (options_catch cannot_convert, Returned)"
  by (simp add: options_handler_p0_def null_block_body_def find_selected_user_p0_def lit_def)

lemma null_block_no_selection: "no_selection null_block_body"
  by (simp add: no_selection_def snapshot_blocks_def null_block_body_def lit_def)

text \<open>
  Claim C5 (a defect of \<^verbatim>\<open>part_000\<close>). The snapshot whose only block is \<^verbatim>\<open>null\<close>
  carries no selection. \<^verbatim>\<open>server.js\<close> acknowledges it with the \<open>no_user\<close> placeholder;
  in \<^verbatim>\<open>part_000\<close> the scan throws on \<^verbatim>\<open>Object.keys(null)\<close>, and the handler acknowledges
  with the \<open>err\<close> placeholder instead.
\<close>

theorem null_block_breaks_scan_p0:
  "no_selection null_block_body
   \<and> options_handler_srv sv null_block_body = ([Ack_options [no_user_srv]], Returned)
   \<and> options_handler_p0 sv null_block_body
       = ([ConsoleError (lit ''options handler error'') cannot_convert, Ack_options [err_option]],
          Returned)
   \<and> acked_options (fst (options_handler_p0 sv null_block_body)) = [[err_option]]
   \<and> opt_value err_option \<noteq> lit ''no_user''"
proof -
  have t: "truthy null_block_body"
    by (simp add: null_block_body_def)
  have e: "opt_value err_option \<noteq> lit ''no_user''"
    by (simp add: err_option_def lit_def)
  from null_block_no_selection no_user_srv_general [OF t null_block_no_selection, of sv]
    null_block_p0 [of sv] e
  show ?thesis by (simp add: options_catch_def)
qed

theorem null_block_breaks_scan_p0_witness:
  "acked_options (fst (options_handler_p0 idle_services null_block_body)) \<noteq> [[no_user_p0]]"
  using null_block_breaks_scan_p0 [of idle_services]
  by (simp add: err_option_def no_user_p0_def lit_def)

subsection \<open>Labels\<close>

lemma option_of_row_values:
  "map opt_value (map option_of_row_srv rows) = map opt_value (map option_of_row_p0 rows)"
  by (simp add: option_of_row_srv_def option_of_row_p0_def Let_def)

lemma label_p0_long:
  "75 < length (task_text r) \<Longrightarrow>
   opt_text (option_of_row_p0 r) = take 72 (task_text r) @ lit ''...'' @ due_suffix (due_date r)"
  by (simp add: option_of_row_p0_def Let_def slice0_def due_suffix_def)

lemma label_p0_short:
  "length (task_text r) \<le> 75 \<Longrightarrow>
   opt_text (option_of_row_p0 r) = task_text r @ due_suffix (due_date r)"
  by (simp add: option_of_row_p0_def Let_def due_suffix_def)

lemma label_srv: "opt_text (option_of_row_srv r) = take 75 (task_text r @ due_suffix (due_date r))"
  by (simp add: option_of_row_srv_def Let_def slice0_def)

lemma labels_srv_bounded: "length (opt_text (option_of_row_srv r)) \<le> 75"
  by (simp add: label_srv)





lemma sample_task_text [simp]: "task_text (sample_task n) = replicate n 0x61"
  by (simp add: sample_task_def)

lemma sample_task_due [simp]: "due_date (sample_task n) = \<lparr>year = 2025, month = 3, day = 1\<rparr>"
  by (simp add: sample_task_def)




text \<open>
  Claim C1 (a defect of \<^verbatim>\<open>part_000\<close>). One open task of \<open>U1\<close> with a text of 60 code
  units: the store returns it, \<^verbatim>\<open>part_000\<close> acknowledges with one option whose label has
  77 code units, over the bound of 75; the label of \<^verbatim>\<open>server.js\<close> has 75.
\<close>

theorem label_exceeds_bound_p0:
  "select_open_tasks [sample_task 60] user_U1 = [sample_task 60]
   \<and> acked_options (fst (options_handler_p0
        (store_answering (select_open_tasks [sample_task 60] user_U1))
        picked_user_body))
      = [[option_of_row_p0 (sample_task 60)]]
   \<and> length (opt_text (option_of_row_p0 (sample_task 60))) = 77
   \<and> length (opt_text (option_of_row_srv (sample_task 60))) = 75"
proof -
  have s: "select_open_tasks [sample_task 60] user_U1 = [sample_task 60]"
    by (simp add: select_open_tasks_def sample_task_def)
  have a: "acked_options (fst (options_handler_p0
        (store_answering (select_open_tasks [sample_task 60] user_U1))
        picked_user_body))
      = [[option_of_row_p0 (sample_task 60)]]"
    using truthy_U1 by (simp add: options_handler_p0_def find_picked_p0 s)
  have l: "length (opt_text (option_of_row_p0 (sample_task 60))) = 77"
    by (simp add: label_p0_short)
  have l': "length (opt_text (option_of_row_srv (sample_task 60))) = 75"
    by (simp add: label_srv)
  from s a l l' show ?thesis by simp
qed

theorem label_exceeds_bound_p0_witness:
  "\<not> length (opt_text (option_of_row_p0 (sample_task 60))) \<le> 75"
  using label_exceeds_bound_p0 by simp

subsection \<open>The two option handlers compared\<close>







subsection \<open>Startup\<close>

lemma startup_p0_missing:
  "missing_required env \<Longrightarrow>
   startup_p0 env db_init
     = [Log_error (lit ''Missing required environment variables. Set SLACK_BOT_TOKEN, SLACK_SIGNING_SECRET and DATABASE_URL.''), Exit 1]
   \<and> exits_before_traffic (startup_p0 env db_init)"
  by (simp add: startup_p0_def)

lemma missing_required_iff:
  "missing_required env \<longleftrightarrow>
     (SLACK_BOT_TOKEN env \<in> {None, Some []} \<or> SLACK_SIGNING_SECRET env \<in> {None, Some []}
      \<or> DATABASE_URL env \<in> {None, Some []})"
  by (auto simp: missing_required_def truthy_str_def split: option.splits)

lemma startup_srv_never_exits: "\<not> exits_before_traffic (startup_srv env db_init)"
  by (simp add: startup_srv_def)

text \<open>
  Claim C9 (a defect of \<^verbatim>\<open>server.js\<close>). With \<^verbatim>\<open>DATABASE_URL\<close> unset, a required value
  is missing. \<^verbatim>\<open>part_000\<close> logs and exits with status 1 before it listens. \<^verbatim>\<open>server.js\<close>
  has no check: it builds the pool from the undefined connection string and listens on
  port 3000, whatever becomes of \<^verbatim>\<open>initDB\<close>; it never calls \<^verbatim>\<open>process.exit\<close>.
\<close>

theorem startup_without_database_srv:
  "missing_required env_without_database
   \<and> startup_srv env_without_database None
       = [New_receiver (Some (lit ''s3cret'')), New_app (Some (lit ''xoxb-1'')), New_pool None,
          InitDB, Listen (Port_literal 3000)]
   \<and> \<not> exits_before_traffic (startup_srv env_without_database db_init)
   \<and> exits_before_traffic (startup_p0 env_without_database db_init)"
proof -
  have m: "missing_required env_without_database"
    by (simp add: missing_required_def env_without_database_def truthy_str_def)
  have s: "startup_srv env_without_database None
       = [New_receiver (Some (lit ''s3cret'')), New_app (Some (lit ''xoxb-1'')), New_pool None,
          InitDB, Listen (Port_literal 3000)]"
    by (simp add: startup_srv_def env_without_database_def truthy_str_def)
  from m s startup_srv_never_exits startup_p0_missing [OF m] show ?thesis by simp
qed

theorem startup_without_database_srv_witness:
  "list_ex is_listen (startup_srv env_without_database None)"
  using startup_without_database_srv [of None] by simp

subsection \<open>Submission of the task form\<close>

lemma length_10_cases:
  assumes "length s = 10"
  obtains a b c d e f g h i j where "s = [a, b, c, d, e, f, g, h, i, j]"
proof -
  from assms have "s = [s ! 0, s ! 1, s ! 2, s ! 3, s ! 4, s ! 5, s ! 6, s ! 7, s ! 8, s ! 9]"
    by (intro nth_equalityI) (auto simp: nth_Cons' less_Suc_eq numeral_eq_Suc)
  then show ?thesis by (rule that)
qed

text \<open>
  The test accepts exactly the strings of ten code units made of four digits, a dash,
  two digits, a dash and two digits.
\<close>

lemma date_regex_test_iff:
  "date_regex_test s \<longleftrightarrow>
     (\<exists>y1 y2 y3 y4 m1 m2 d1 d2.
        s = [y1, y2, y3, y4, 0x2D, m1, m2, 0x2D, d1, d2]
        \<and> is_digit y1 \<and> is_digit y2 \<and> is_digit y3 \<and> is_digit y4
        \<and> is_digit m1 \<and> is_digit m2 \<and> is_digit d1 \<and> is_digit d2)"
proof
  assume t: "date_regex_test s"
  then have "length s = 10" by (simp add: date_regex_test_def)
  then obtain a b c d e f g h i j where s: "s = [a, b, c, d, e, f, g, h, i, j]"
    by (rule length_10_cases)
  with t show "\<exists>y1 y2 y3 y4 m1 m2 d1 d2.
        s = [y1, y2, y3, y4, 0x2D, m1, m2, 0x2D, d1, d2]
        \<and> is_digit y1 \<and> is_digit y2 \<and> is_digit y3 \<and> is_digit y4
        \<and> is_digit m1 \<and> is_digit m2 \<and> is_digit d1 \<and> is_digit d2"
    by (simp add: date_regex_test_def)
next
  assume "\<exists>y1 y2 y3 y4 m1 m2 d1 d2.
        s = [y1, y2, y3, y4, 0x2D, m1, m2, 0x2D, d1, d2]
        \<and> is_digit y1 \<and> is_digit y2 \<and> is_digit y3 \<and> is_digit y4
        \<and> is_digit m1 \<and> is_digit m2 \<and> is_digit d1 \<and> is_digit d2"
  then show "date_regex_test s"
    by (auto simp: date_regex_test_def)
qed

lemma date_regex_2024_13_40: "date_regex_test (lit ''2024-13-40'')"
  by (simp add: date_regex_test_def lit_def is_digit_def)

lemma try_ephemeral_no_write: "\<not> list_ex is_store_write (try_ephemeral sv user notice label)"
  by (simp add: try_ephemeral_def split: option.splits)

lemma add_task_view_srv_writes: "list_ex is_store_write (fst (add_task_view_srv sv sub))"
  by (simp add: add_task_view_srv_def Let_def)

text \<open>
  Claim C4, as amended. In \<^verbatim>\<open>part_000\<close> the handler writes to the store exactly when the
  task text is non-empty as it stands (it is not trimmed) and the date has the form of
  four digits, dash, two digits, dash, two digits. On any other submission it
  acknowledges, sends the invoker the private notice, logs a failure of that send, and
  does nothing else. It returns on every submission. The date \<open>2024-13-40\<close> has the
  required form.
\<close>

theorem task_creation_validation_p0:
  "(list_ex is_store_write (fst (add_task_view_p0 sv sub))
      \<longleftrightarrow> or_empty (task_input_value sub) \<noteq> [] \<and> date_regex_test (or_empty (date_input_value sub)))
   \<and> (or_empty (task_input_value sub) = [] \<or> \<not> date_regex_test (or_empty (date_input_value sub))
      \<longrightarrow> fst (add_task_view_p0 sv sub)
            = Ack_empty #
              PostEphemeral (submitter sub) (submitter sub)
                (lit ''Task not saved. Ensure you provided a task and date in YYYY-MM-DD format.'') #
              (case post_ephemeral sv (submitter sub) (submitter sub)
                      (lit ''Task not saved. Ensure you provided a task and date in YYYY-MM-DD format.'') of
                 None \<Rightarrow> []
               | Some e \<Rightarrow> [ConsoleError (lit ''error sending ephemeral'') e]))
   \<and> snd (add_task_view_p0 sv sub) = Returned
   \<and> date_regex_test (lit ''2024-13-40'')"
proof -
  have w: "list_ex is_store_write (fst (add_task_view_p0 sv sub))
      \<longleftrightarrow> or_empty (task_input_value sub) \<noteq> [] \<and> date_regex_test (or_empty (date_input_value sub))"
    by (simp add: add_task_view_p0_def Let_def add_task_invalid_p0_def try_ephemeral_no_write)
  have n: "or_empty (task_input_value sub) = [] \<or> \<not> date_regex_test (or_empty (date_input_value sub))
      \<longrightarrow> fst (add_task_view_p0 sv sub)
            = Ack_empty #
              PostEphemeral (submitter sub) (submitter sub)
                (lit ''Task not saved. Ensure you provided a task and date in YYYY-MM-DD format.'') #
              (case post_ephemeral sv (submitter sub) (submitter sub)
                      (lit ''Task not saved. Ensure you provided a task and date in YYYY-MM-DD format.'') of
                 None \<Rightarrow> []
               | Some e \<Rightarrow> [ConsoleError (lit ''error sending ephemeral'') e])"
    by (simp add: add_task_view_p0_def Let_def add_task_invalid_p0_def try_ephemeral_def)
  have r: "snd (add_task_view_p0 sv sub) = Returned"
    by (simp add: add_task_view_p0_def Let_def)
  from w n r date_regex_2024_13_40 show ?thesis by blast
qed

lemma trim_blank: "trim (lit '' '') = []"
  by (simp add: trim_def lit_def is_white_space_def)

text \<open>
  The claim as stated fails on a text of one space: empty after trimming, so invalid for
  the specification, yet \<^verbatim>\<open>part_000\<close> inserts the task and confirms it.
\<close>

theorem task_creation_validation_counterexample:
  "\<not> spec_valid_task_creation blank_submission
   \<and> add_task_view_p0 idle_services blank_submission
       = ([Ack_empty,
           Insert_task user_U1 (Some (lit '' '')) (Some (lit ''2024-01-01'')) user_U1 None,
           PostMessage (Some user_U1) (saved_text (lit '' '') (lit ''2024-01-01''))],
          Returned)
   \<and> list_ex is_store_write (fst (add_task_view_p0 idle_services blank_submission))"
proof -
  have a: "\<not> spec_valid_task_creation blank_submission"
    by (simp add: spec_valid_task_creation_def blank_submission_def or_empty_def trim_blank)
  have d: "date_regex_test (lit ''2024-01-01'')"
    by (simp add: date_regex_test_def lit_def is_digit_def)
  have t: "lit '' '' \<noteq> []"
    by (simp add: lit_def)
  have b: "add_task_view_p0 idle_services blank_submission
       = ([Ack_empty,
           Insert_task user_U1 (Some (lit '' '')) (Some (lit ''2024-01-01'')) user_U1 None,
           PostMessage (Some user_U1) (saved_text (lit '' '') (lit ''2024-01-01''))],
          Returned)"
    using d t
    by (simp add: add_task_view_p0_def blank_submission_def or_empty_def add_task_invalid_p0_def
        idle_services_def Let_def)
  from a b show ?thesis by simp
qed

theorem task_creation_validation_p0_witness:
  "or_empty (task_input_value empty_task_submission) = []
   \<and> add_task_view_p0 idle_services empty_task_submission
       = ([Ack_empty,
           PostEphemeral user_U1 user_U1
             (lit ''Task not saved. Ensure you provided a task and date in YYYY-MM-DD format.'')],
          Returned)
   \<and> \<not> list_ex is_store_write (fst (add_task_view_p0 idle_services empty_task_submission))"
proof -
  have e: "or_empty (task_input_value empty_task_submission) = []"
    by (simp add: empty_task_submission_def or_empty_def)
  have p: "post_ephemeral idle_services user_U1 user_U1
             (lit ''Task not saved. Ensure you provided a task and date in YYYY-MM-DD format.'') = None"
    by (simp add: idle_services_def)
  have s: "submitter empty_task_submission = user_U1"
    by (simp add: empty_task_submission_def)
  from task_creation_validation_p0 [of idle_services empty_task_submission] e p s
  show ?thesis by (simp add: prod_eq_iff)
qed

subsection \<open>Submission of the reminder form\<close>

text \<open>
  \<^verbatim>\<open>server.js\<close> sends whatever task id it reads to the store, right after the
  acknowledgment.
\<close>

lemma send_reminder_view_srv_unchecked:
  "take 2 (fst (send_reminder_view_srv sv sub))
     = [Ack_empty, Query_task_by_id (selected_option_value sub)]"
  by (simp add: send_reminder_view_srv_def Let_def prepend_def)


lemma try_ephemeral_quiet:
  "\<not> list_ex is_dispatch (try_ephemeral sv user notice label)
   \<and> \<not> list_ex is_store_access (try_ephemeral sv user notice label)"
  by (simp add: try_ephemeral_def split: option.splits)

lemma reminder_failure_p0_quiet:
  "\<not> list_ex is_dispatch (reminder_failure_p0 sv c err)
   \<and> PostEphemeral c c (lit ''Failed to send reminder (server error).'')
       \<in> set (reminder_failure_p0 sv c err)"
  by (simp add: reminder_failure_p0_def try_ephemeral_def split: option.splits)

lemma sentinel_not_invalid:
  "truthy_str u \<Longrightarrow> tok \<in> set sentinel_tokens \<Longrightarrow> \<not> reminder_invalid_p0 u (Some tok)"
  by (auto simp: reminder_invalid_p0_def sentinel_tokens_def truthy_str_def lit_def)

text \<open>
  Claim C3, as amended. In \<^verbatim>\<open>part_000\<close>, a reminder submission whose user selection or
  task selection is absent (\<^verbatim>\<open>null\<close> or empty) is rejected before any store access:
  nothing is dispatched and the invoker is sent the private notice that asks for both a
  user and a task. Any other task selection, a sentinel token included, is not checked:
  it goes to the store as the task id. A reminder is dispatched only when the store
  returns a row for it; when the lookup raises an error the invoker is sent the private
  notice of a server error, and when it returns no row the private notice that the task
  was not found.
\<close>

theorem reminder_validation_p0:
  "(\<not> truthy_str (selected_user sub) \<or> \<not> truthy_str (selected_option_value sub) \<longrightarrow>
      send_reminder_view_p0 sv sub
        = (Ack_empty # PostEphemeral (ceo sub) (ceo sub) select_both #
             (case post_ephemeral sv (ceo sub) (ceo sub) select_both of
                None \<Rightarrow> []
              | Some e \<Rightarrow> [ConsoleError (lit ''ephemeral send failed'') e]),
           Returned)
      \<and> \<not> list_ex is_dispatch (fst (send_reminder_view_p0 sv sub))
      \<and> \<not> list_ex is_store_access (fst (send_reminder_view_p0 sv sub)))
   \<and> (truthy_str (selected_user sub) \<and> truthy_str (selected_option_value sub) \<longrightarrow>
        take 2 (fst (send_reminder_view_p0 sv sub))
          = [Ack_empty, Query_task_by_id (selected_option_value sub)]
        \<and> (list_ex is_dispatch (fst (send_reminder_view_p0 sv sub))
             \<longrightarrow> (\<exists>task rest. query_task_by_id sv (selected_option_value sub) = Inr (task # rest)))
        \<and> ((\<exists>err. query_task_by_id sv (selected_option_value sub) = Inl err) \<longrightarrow>
              PostEphemeral (ceo sub) (ceo sub) (lit ''Failed to send reminder (server error).'')
                \<in> set (fst (send_reminder_view_p0 sv sub)))
        \<and> (query_task_by_id sv (selected_option_value sub) = Inr [] \<longrightarrow>
              PostEphemeral (ceo sub) (ceo sub) (lit ''Task not found (may have been deleted).'')
                \<in> set (fst (send_reminder_view_p0 sv sub))))
   \<and> (truthy_str (selected_user sub) \<and> selected_option_value sub = Some tok
        \<and> tok \<in> set sentinel_tokens
        \<longrightarrow> \<not> reminder_invalid_p0 (selected_user sub) (selected_option_value sub))"
proof -
  let ?run = "send_reminder_view_p0 sv sub"
  have a: "\<not> truthy_str (selected_user sub) \<or> \<not> truthy_str (selected_option_value sub) \<longrightarrow>
      ?run
        = (Ack_empty # PostEphemeral (ceo sub) (ceo sub) select_both #
             (case post_ephemeral sv (ceo sub) (ceo sub) select_both of
                None \<Rightarrow> []
              | Some e \<Rightarrow> [ConsoleError (lit ''ephemeral send failed'') e]),
           Returned)
      \<and> \<not> list_ex is_dispatch (fst ?run)
      \<and> \<not> list_ex is_store_access (fst ?run)"
    by (auto simp: send_reminder_view_p0_def Let_def reminder_invalid_p0_def try_ephemeral_def
        split: option.splits)
  have b: "truthy_str (selected_user sub) \<and> truthy_str (selected_option_value sub) \<longrightarrow>
        take 2 (fst ?run) = [Ack_empty, Query_task_by_id (selected_option_value sub)]
        \<and> (list_ex is_dispatch (fst ?run)
             \<longrightarrow> (\<exists>task rest. query_task_by_id sv (selected_option_value sub) = Inr (task # rest)))
        \<and> ((\<exists>err. query_task_by_id sv (selected_option_value sub) = Inl err) \<longrightarrow>
              PostEphemeral (ceo sub) (ceo sub) (lit ''Failed to send reminder (server error).'')
                \<in> set (fst ?run))
        \<and> (query_task_by_id sv (selected_option_value sub) = Inr [] \<longrightarrow>
              PostEphemeral (ceo sub) (ceo sub) (lit ''Task not found (may have been deleted).'')
                \<in> set (fst ?run))"
    using reminder_failure_p0_quiet [of sv "ceo sub"]
    by (auto simp: send_reminder_view_p0_def Let_def reminder_invalid_p0_def
        split: sum.splits list.splits option.splits)
  have c: "truthy_str (selected_user sub) \<and> selected_option_value sub = Some tok
        \<and> tok \<in> set sentinel_tokens
        \<longrightarrow> \<not> reminder_invalid_p0 (selected_user sub) (selected_option_value sub)"
    by (auto dest: sentinel_not_invalid)
  from a b c show ?thesis by blast
qed

text \<open>
  The claim as stated fails on the sentinel \<open>no_user\<close> with a store that refuses the
  token as a task id: the token reaches the store, and the notice the invoker gets names
  no field.
\<close>

theorem reminder_validation_counterexample:
  "spec_invalid_reminder sentinel_submission
   \<and> send_reminder_view_p0 store_refusing_id sentinel_submission
       = ([Ack_empty, Query_task_by_id (Some (lit ''no_user'')),
           ConsoleError (lit ''send reminder error'') invalid_id,
           PostEphemeral user_U0 user_U0 (lit ''Failed to send reminder (server error).'')],
          Returned)
   \<and> \<not> spec_rejected sentinel_submission
         (fst (send_reminder_view_p0 store_refusing_id sentinel_submission))"
proof -
  let ?sv = "store_refusing_id"
  have a: "spec_invalid_reminder sentinel_submission"
    by (simp add: spec_invalid_reminder_def sentinel_submission_def sentinel_tokens_def or_empty_def)
  have v: "\<not> reminder_invalid_p0 (Some user_U1) (Some (lit ''no_user''))"
    by (simp add: reminder_invalid_p0_def truthy_str_def user_U1_def lit_def)
  have b: "send_reminder_view_p0 ?sv sentinel_submission
       = ([Ack_empty, Query_task_by_id (Some (lit ''no_user'')),
           ConsoleError (lit ''send reminder error'') invalid_id,
           PostEphemeral user_U0 user_U0 (lit ''Failed to send reminder (server error).'')],
          Returned)"
    using v
    by (simp add: send_reminder_view_p0_def sentinel_submission_def Let_def reminder_failure_p0_def
        try_ephemeral_def idle_services_def)
  have n: "select_both \<noteq> lit ''Failed to send reminder (server error).''"
    by (simp add: select_both_def lit_def)
  have c: "\<not> spec_rejected sentinel_submission (fst (send_reminder_view_p0 ?sv sentinel_submission))"
    unfolding spec_rejected_def b using n by (simp add: sentinel_submission_def)
  from a b c show ?thesis by simp
qed

theorem reminder_validation_p0_witness:
  "\<not> truthy_str (selected_user no_user_submission)
   \<and> send_reminder_view_p0 idle_services no_user_submission
       = ([Ack_empty, PostEphemeral user_U0 user_U0 select_both], Returned)
   \<and> spec_rejected no_user_submission (fst (send_reminder_view_p0 idle_services no_user_submission))"
proof -
  have u: "\<not> truthy_str (selected_user no_user_submission)"
    by (simp add: no_user_submission_def truthy_str_def)
  have c: "ceo no_user_submission = user_U0"
    by (simp add: no_user_submission_def)
  have p: "post_ephemeral idle_services user_U0 user_U0 select_both = None"
    by (simp add: idle_services_def)
  from reminder_validation_p0 [of no_user_submission idle_services] u c p
  show ?thesis by (simp add: spec_rejected_def)
qed

subsection \<open>Acknowledgments\<close>

lemma acks_Cons [simp]: "acks (a # as) = (if is_ack a then Suc (acks as) else acks as)"
  by (simp add: acks_def)

lemma acks_Nil [simp]: "acks [] = 0"
  by (simp add: acks_def)

lemma acks_append [simp]: "acks (as @ bs) = acks as + acks bs"
  by (simp add: acks_def)

lemma acks_try_ephemeral [simp]: "acks (try_ephemeral sv user notice label) = 0"
  by (simp add: try_ephemeral_def split: option.splits)

lemma open_modal_ack:
  "acks (fst (open_modal sv t c l)) = 1 \<and> (\<exists>rest. fst (open_modal sv t c l) = Ack_empty # rest)"
  by (simp add: open_modal_def split: option.splits)

lemma add_task_view_srv_ack:
  "acks (fst (add_task_view_srv sv sub)) = 1
   \<and> (\<exists>rest. fst (add_task_view_srv sv sub) = Ack_empty # rest)"
  by (simp add: add_task_view_srv_def Let_def split: option.splits)

lemma add_task_view_p0_ack:
  "acks (fst (add_task_view_p0 sv sub)) = 1
   \<and> (\<exists>rest. fst (add_task_view_p0 sv sub) = Ack_empty # rest)"
  by (simp add: add_task_view_p0_def Let_def add_task_failure_p0_def split: option.splits)

lemma acks_reminder_failure_srv [simp]: "acks (fst (reminder_failure_srv sv c err)) = 0"
  by (simp add: reminder_failure_srv_def Let_def)

lemma fst_prepend [simp]: "fst (prepend as r) = as @ fst r"
  by (simp add: prepend_def)

lemma send_reminder_view_srv_ack:
  "acks (fst (send_reminder_view_srv sv sub)) = 1
   \<and> (\<exists>rest. fst (send_reminder_view_srv sv sub) = Ack_empty # rest)"
  by (simp add: send_reminder_view_srv_def Let_def split: option.splits sum.splits list.splits)

lemma send_reminder_view_p0_ack:
  "acks (fst (send_reminder_view_p0 sv sub)) = 1
   \<and> (\<exists>rest. fst (send_reminder_view_p0 sv sub) = Ack_empty # rest)"
  by (simp add: send_reminder_view_p0_def Let_def reminder_failure_p0_def
      split: option.splits sum.splits list.splits)

lemma options_handler_srv_ack:
  "acks (fst (options_handler_srv sv body)) = 1
   \<and> (\<exists>pre opts. fst (options_handler_srv sv body) = pre @ [Ack_options opts])"
  by (auto simp: options_handler_srv_def Let_def options_catch_def split: sum.splits)

lemma options_handler_p0_ack:
  "acks (fst (options_handler_p0 sv body)) = 1
   \<and> (\<exists>pre opts. fst (options_handler_p0 sv body) = pre @ [Ack_options opts])"
  by (auto simp: options_handler_p0_def Let_def options_catch_def split: sum.splits)

text \<open>
  Claim C8, as amended. Every interaction is acknowledged exactly once, in both
  variants. For a slash command and for a form submission the acknowledgment is the
  first action. For an option request it is the last action: it carries the options, so
  it comes after the store query where a user is resolved.
\<close>

theorem one_acknowledgment:
  "acks (fst (handle_srv sv i)) = 1 \<and> acks (fst (handle_p0 sv i)) = 1
   \<and> (\<not> is_option_request i \<longrightarrow>
        (\<exists>rest. fst (handle_srv sv i) = Ack_empty # rest)
        \<and> (\<exists>rest. fst (handle_p0 sv i) = Ack_empty # rest))
   \<and> (is_option_request i \<longrightarrow>
        (\<exists>pre opts. fst (handle_srv sv i) = pre @ [Ack_options opts])
        \<and> (\<exists>pre opts. fst (handle_p0 sv i) = pre @ [Ack_options opts]))"
proof (cases i)
  case (Command_addtask t)
  then show ?thesis
    using open_modal_ack by (simp add: command_addtask_srv_def command_addtask_p0_def)
next
  case (Command_reminduser t)
  then show ?thesis
    using open_modal_ack by (simp add: command_reminduser_srv_def command_reminduser_p0_def)
next
  case (Options_task_select body)
  then show ?thesis
    using options_handler_srv_ack [of sv body] options_handler_p0_ack [of sv body] by simp
next
  case (View_add_task sub)
  then show ?thesis
    using add_task_view_srv_ack [of sv sub] add_task_view_p0_ack [of sv sub] by simp
next
  case (View_send_reminder sub)
  then show ?thesis
    using send_reminder_view_srv_ack [of sv sub] send_reminder_view_p0_ack [of sv sub] by simp
qed

text \<open>
  The claim as stated fails on an option request with a picked user: the first action
  of both variants is the store query.
\<close>

theorem one_acknowledgment_counterexample:
  "fst (handle_srv idle_services (Options_task_select picked_user_body))
     = [Query_open_tasks (J (JStr user_U1)), Ack_options [no_tasks_srv]]
   \<and> fst (handle_p0 idle_services (Options_task_select picked_user_body))
     = [Query_open_tasks (J (JStr user_U1)), Ack_options [no_tasks_p0]]
   \<and> \<not> is_ack (hd (fst (handle_p0 idle_services (Options_task_select picked_user_body))))
   \<and> is_store_access (hd (fst (handle_p0 idle_services (Options_task_select picked_user_body))))"
proof -
  have q: "query_open_tasks idle_services (J (JStr user_U1)) = Inr []"
    by (simp add: idle_services_def)
  have a: "fst (handle_srv idle_services (Options_task_select picked_user_body))
     = [Query_open_tasks (J (JStr user_U1)), Ack_options [no_tasks_srv]]"
    using truthy_U1 q by (simp add: options_handler_srv_def find_picked_srv)
  have b: "fst (handle_p0 idle_services (Options_task_select picked_user_body))
     = [Query_open_tasks (J (JStr user_U1)), Ack_options [no_tasks_p0]]"
    using truthy_U1 q by (simp add: options_handler_p0_def find_picked_p0)
  from a b show ?thesis by simp
qed

theorem one_acknowledgment_witness:
  "\<not> is_option_request (View_add_task blank_submission)
   \<and> acks (fst (handle_p0 idle_services (View_add_task blank_submission))) = 1
   \<and> hd (fst (handle_p0 idle_services (View_add_task blank_submission))) = Ack_empty
   \<and> hd (fst (handle_srv idle_services (View_add_task blank_submission))) = Ack_empty
   \<and> is_option_request (Options_task_select picked_user_body)
   \<and> is_ack (last (fst (handle_p0 idle_services (Options_task_select picked_user_body))))"
proof -
  from one_acknowledgment [of idle_services "View_add_task blank_submission"]
  have a: "acks (fst (handle_p0 idle_services (View_add_task blank_submission))) = 1
   \<and> hd (fst (handle_p0 idle_services (View_add_task blank_submission))) = Ack_empty
   \<and> hd (fst (handle_srv idle_services (View_add_task blank_submission))) = Ack_empty"
    by auto
  from one_acknowledgment [of idle_services "Options_task_select picked_user_body"]
  have b: "is_ack (last (fst (handle_p0 idle_services (Options_task_select picked_user_body))))"
    by auto
  from a b show ?thesis by simp
qed

subsection \<open>Decimal renderings of task ids\<close>

text \<open>
  \<open>String_int\<close> renders an integer in decimal: reading the string back gives the
  integer, so distinct ids have distinct renderings.
\<close>

lemma unat_digit: "d < 10 \<Longrightarrow> unat (digit d) = 48 + d"
  unfolding digit_def unat_of_nat by simp

lemma digit_value_digit [simp]: "d < 10 \<Longrightarrow> digit_value (digit d) = d"
  by (simp add: digit_value_def unat_digit)

lemma is_digit_digit: "d < 10 \<Longrightarrow> is_digit (digit d)"
  by (simp add: is_digit_def word_le_nat_alt unat_digit)

lemma digits_nonempty [simp]: "digits n \<noteq> []"
  by (subst digits.simps) simp

lemma decimal_value_append:
  "decimal_value (s @ [c]) = 10 * decimal_value s + digit_value c"
  by (simp add: decimal_value_def)

lemma decimal_value_digits [simp]: "decimal_value (digits n) = n"
proof (induction n rule: digits.induct)
  case (1 n)
  show ?case
  proof (cases "n < 10")
    case True
    then show ?thesis by (subst digits.simps) (simp add: decimal_value_def)
  next
    case False
    with 1 have "decimal_value (digits (n div 10)) = n div 10" by simp
    with False show ?thesis
      by (subst digits.simps) (simp add: decimal_value_append)
  qed
qed

lemma digits_all_digits: "list_all is_digit (digits n)"
proof (induction n rule: digits.induct)
  case (1 n)
  show ?case
  proof (cases "n < 10")
    case True
    then show ?thesis by (subst digits.simps) (simp add: is_digit_digit)
  next
    case False
    with 1 have "list_all is_digit (digits (n div 10))" by simp
    with False show ?thesis
      by (subst digits.simps) (simp add: is_digit_digit)
  qed
qed

lemma hd_digits_not_minus: "hd (digits n) \<noteq> 0x2D"
proof -
  have "is_digit (hd (digits n))"
    using digits_all_digits [of n] digits_nonempty [of n]
    by (cases "digits n") (simp_all)
  then show ?thesis by (auto simp: is_digit_def)
qed

lemma int_of_decimal_String_int [simp]: "int_of_decimal (String_int i) = i"
proof (cases "i < 0")
  case True
  then show ?thesis
    by (simp add: String_int_def int_of_decimal_def lit_def)
next
  case False
  obtain c ds where d: "digits (nat i) = c # ds"
    using digits_nonempty [of "nat i"] by (cases "digits (nat i)") (simp_all)
  with hd_digits_not_minus [of "nat i"] have "c \<noteq> 0x2D" by (simp)
  moreover from d have "decimal_value (c # ds) = nat i"
    using decimal_value_digits [of "nat i"] by (simp)
  ultimately show ?thesis
    using False d by (simp add: String_int_def int_of_decimal_def)
qed

lemma inj_String_int: "inj String_int"
  by (rule inj_on_inverseI [where g = int_of_decimal]) simp

subsection \<open>The store query\<close>

text \<open>
  The query returns at most 50 of the user's open tasks, in non-decreasing order of due
  date; it is a prefix of a stable sort, which keeps the table's order among rows with
  the same due date. Distinct ids give distinct option values.
\<close>

lemma distinct_values:
  assumes "distinct (map id_col tbl)"
  shows "distinct (map (\<lambda>r. String_int (id_col r)) (select_open_tasks tbl u))"
proof -
  let ?sel = "select_open_tasks tbl u"
  from assms have d: "distinct tbl" and i: "inj_on id_col (set tbl)"
    by (simp_all add: distinct_map)
  have s: "set ?sel \<subseteq> set tbl"
    unfolding select_open_tasks_def by (auto dest: in_set_takeD)
  have "distinct ?sel"
    unfolding select_open_tasks_def using d by (simp add: distinct_take)
  moreover have "inj_on (\<lambda>r. String_int (id_col r)) (set ?sel)"
  proof (rule inj_onI)
    fix x y
    assume x: "x \<in> set ?sel" and y: "y \<in> set ?sel"
      and e: "String_int (id_col x) = String_int (id_col y)"
    from e have "id_col x = id_col y"
      using inj_String_int by (simp add: inj_eq)
    moreover from x y s have "x \<in> set tbl" and "y \<in> set tbl"
      by auto
    ultimately show "x = y"
      using i by (simp add: inj_on_def)
  qed
  ultimately show ?thesis by (simp add: distinct_map)
qed

lemma count_open_tasks:
  "length (select_open_tasks tbl u)
     = min (length (filter (\<lambda>t. user_id t = u \<and> \<not> completed t) tbl)) 50"
  by (simp add: select_open_tasks_def)

lemma sorted_open_tasks:
  "sorted (map (\<lambda>t. date_key (due_date t)) (select_open_tasks tbl u))"
proof -
  have "sorted_wrt (\<lambda>x y. date_key (due_date x) \<le> date_key (due_date y))
          (sort_key (\<lambda>t. date_key (due_date t)) (filter (\<lambda>t. user_id t = u \<and> \<not> completed t) tbl))"
    using sorted_sort_key [of "\<lambda>t. date_key (due_date t)"] by (simp add: sorted_map)
  then show ?thesis
    unfolding select_open_tasks_def sorted_map by (rule sorted_wrt_take)
qed

lemma open_tasks_prefix_of_stable_sort:
  "\<exists>rest. sort_key (\<lambda>t. date_key (due_date t)) (filter (\<lambda>t. user_id t = u \<and> \<not> completed t) tbl)
            = select_open_tasks tbl u @ rest
     \<and> (\<forall>k. filter (\<lambda>t. date_key (due_date t) = k) (select_open_tasks tbl u @ rest)
            = filter (\<lambda>t. date_key (due_date t) = k)
                (filter (\<lambda>t. user_id t = u \<and> \<not> completed t) tbl))"
proof -
  let ?open = "filter (\<lambda>t. user_id t = u \<and> \<not> completed t) tbl"
  let ?s = "sort_key (\<lambda>t. date_key (due_date t)) ?open"
  have p: "select_open_tasks tbl u @ drop 50 ?s = ?s"
    unfolding select_open_tasks_def by (rule append_take_drop_id)
  have q: "\<forall>k. filter (\<lambda>t. date_key (due_date t) = k) (select_open_tasks tbl u @ drop 50 ?s)
            = filter (\<lambda>t. date_key (due_date t) = k) ?open"
    unfolding p by (intro allI sort_key_stable)
  show ?thesis
  proof (intro exI conjI)
    show "?s = select_open_tasks tbl u @ drop 50 ?s"
      by (rule p [symmetric])
    show "\<forall>k. filter (\<lambda>t. date_key (due_date t) = k) (select_open_tasks tbl u @ drop 50 ?s)
            = filter (\<lambda>t. date_key (due_date t) = k) ?open"
      by (rule q)
  qed
qed

lemma date_key_order:
  "date_key d \<le> date_key e \<longleftrightarrow>
     year d < year e \<or> (year d = year e \<and> (month d < month e \<or> (month d = month e \<and> day d \<le> day e)))"
  by (auto simp: date_key_def)

subsection \<open>The option list for a user with open tasks\<close>

text \<open>
  With a user resolved whose open tasks the store returns by the query above, each
  variant acknowledges once, with as many options as the user has open tasks, at most
  50, in the order of the rows, with pairwise distinct values that are the decimal
  renderings of the ids. The labels of \<^verbatim>\<open>server.js\<close> have at most 75 code units, the
  labels of \<^verbatim>\<open>part_000\<close> at most 92.
\<close>

lemma options_srv_meet_bounds:
  assumes "find_selected_user_srv body = Inr (J (JStr u))" and "u \<noteq> []"
    and "query_open_tasks sv (J (JStr u)) = Inr (select_open_tasks tbl u)"
    and "distinct (map id_col tbl)"
    and "1 \<le> length (filter (\<lambda>t. user_id t = u \<and> \<not> completed t) tbl)"
  shows "\<exists>opts. acked_options (fst (options_handler_srv sv body)) = [opts]
           \<and> length opts = min (length (filter (\<lambda>t. user_id t = u \<and> \<not> completed t) tbl)) 50
           \<and> (\<forall>opt \<in> set opts. length (opt_text opt) \<le> 75)
           \<and> map opt_value opts = map (\<lambda>r. String_int (id_col r)) (select_open_tasks tbl u)
           \<and> distinct (map opt_value opts)
           \<and> sorted (map (\<lambda>t. date_key (due_date t)) (select_open_tasks tbl u))"
proof -
  let ?rows = "select_open_tasks tbl u"
  from assms(5) have n: "?rows \<noteq> []"
    using count_open_tasks [of tbl u] by (cases "?rows") simp_all
  have a: "acked_options (fst (options_handler_srv sv body)) = [map option_of_row_srv ?rows]"
    using assms(1-3) n by (simp add: options_handler_srv_def Let_def)
  have v: "map opt_value (map option_of_row_srv ?rows) = map (\<lambda>r. String_int (id_col r)) ?rows"
    by (simp add: option_of_row_srv_def Let_def)
  let ?opts = "map option_of_row_srv ?rows"
  have d: "distinct (map opt_value ?opts)"
    unfolding v by (rule distinct_values [OF assms(4)])
  have c: "length ?opts = min (length (filter (\<lambda>t. user_id t = u \<and> \<not> completed t) tbl)) 50"
    by (simp add: count_open_tasks)
  have b: "\<forall>opt \<in> set ?opts. length (opt_text opt) \<le> 75"
    using labels_srv_bounded by simp
  show ?thesis
  proof (intro exI conjI)
    show "acked_options (fst (options_handler_srv sv body)) = [?opts]" by (rule a)
    show "length ?opts = min (length (filter (\<lambda>t. user_id t = u \<and> \<not> completed t) tbl)) 50"
      by (rule c)
    show "\<forall>opt \<in> set ?opts. length (opt_text opt) \<le> 75" by (rule b)
    show "map opt_value ?opts = map (\<lambda>r. String_int (id_col r)) ?rows" by (rule v)
    show "distinct (map opt_value ?opts)" by (rule d)
    show "sorted (map (\<lambda>t. date_key (due_date t)) ?rows)" by (rule sorted_open_tasks)
  qed
qed

lemma options_p0_meet_bounds:
  assumes "find_selected_user_p0 body = Inr (J (JStr u))" and "u \<noteq> []"
    and "query_open_tasks sv (J (JStr u)) = Inr (select_open_tasks tbl u)"
    and "distinct (map id_col tbl)"
    and "1 \<le> length (filter (\<lambda>t. user_id t = u \<and> \<not> completed t) tbl)"
  shows "\<exists>opts. acked_options (fst (options_handler_p0 sv body)) = [opts]
           \<and> length opts = min (length (filter (\<lambda>t. user_id t = u \<and> \<not> completed t) tbl)) 50
           \<and> (\<forall>opt \<in> set opts. length (opt_text opt) \<le> 92)
           \<and> map opt_value opts = map (\<lambda>r. String_int (id_col r)) (select_open_tasks tbl u)
           \<and> distinct (map opt_value opts)
           \<and> sorted (map (\<lambda>t. date_key (due_date t)) (select_open_tasks tbl u))"
proof -
  let ?rows = "select_open_tasks tbl u"
  from assms(5) have n: "?rows \<noteq> []"
    using count_open_tasks [of tbl u] by (cases "?rows") simp_all
  have a: "acked_options (fst (options_handler_p0 sv body)) = [map option_of_row_p0 ?rows]"
    using assms(1-3) n by (simp add: options_handler_p0_def)
  have v: "map opt_value (map option_of_row_p0 ?rows) = map (\<lambda>r. String_int (id_col r)) ?rows"
    by (simp add: option_of_row_p0_def Let_def)
  have l: "length (opt_text (option_of_row_p0 r)) \<le> 92" for r
    by (cases "75 < length (task_text r)") (simp_all add: label_p0_long label_p0_short)
  let ?opts = "map option_of_row_p0 ?rows"
  have d: "distinct (map opt_value ?opts)"
    unfolding v by (rule distinct_values [OF assms(4)])
  have c: "length ?opts = min (length (filter (\<lambda>t. user_id t = u \<and> \<not> completed t) tbl)) 50"
    by (simp add: count_open_tasks)
  have b: "\<forall>opt \<in> set ?opts. length (opt_text opt) \<le> 92"
    using l by simp
  show ?thesis
  proof (intro exI conjI)
    show "acked_options (fst (options_handler_p0 sv body)) = [?opts]" by (rule a)
    show "length ?opts = min (length (filter (\<lambda>t. user_id t = u \<and> \<not> completed t) tbl)) 50"
      by (rule c)
    show "\<forall>opt \<in> set ?opts. length (opt_text opt) \<le> 92" by (rule b)
    show "map opt_value ?opts = map (\<lambda>r. String_int (id_col r)) ?rows" by (rule v)
    show "distinct (map opt_value ?opts)" by (rule d)
    show "sorted (map (\<lambda>t. date_key (due_date t)) ?rows)" by (rule sorted_open_tasks)
  qed
qed

lemma ship_report_option:
  "option_of_row_p0 ship_report
     = \<lparr>opt_text = lit ''Ship report '' @ em_dash @ lit '' due 2025-03-01'', opt_value = lit ''42''\<rparr>
   \<and> option_of_row_srv ship_report = option_of_row_p0 ship_report"
  by (simp add: option_of_row_p0_def option_of_row_srv_def ship_report_def Let_def slice0_def
      due_suffix_def iso10_def toISOString_def pad_def digits.simps digit_def String_int_def
      lit_def em_dash_def)

end
